theory Spec2Isabelle
  imports Complex_Main "HOL-Library.Word"
begin

unbundle bit_operations_syntax

section \<open>PeerShare transfer engine: numbers\<close>

text \<open>
  A TypeScript \<open>number\<close> is modelled as a real where the code only computes with
  finite values (byte sizes, round-trip times), and as \<open>jsnum\<close> where the code itself
  tests for the non-finite values or divides. Chunk counts and chunk indices, which
  the code obtains from \<open>Math.ceil\<close>, \<open>Math.floor\<close> and counting, are integers.
  The division of \<open>calculateTotalChunks\<close> rounds as the language does; sums,
  products and comparisons of finite values are exact. The two zeros of the double
  format are one value here.
\<close>

datatype jsnum = Fin real | NaN | PosInf | NegInf

fun isFinite :: "jsnum \<Rightarrow> bool" where
  "isFinite (Fin x) = True"
| "isFinite NaN = False"
| "isFinite PosInf = False"
| "isFinite NegInf = False"

subsection \<open>The division and the ceiling of the language\<close>

text \<open>
  The quotient of two finite numbers is the double nearest to the exact quotient,
  a tie going to the even significand, and an infinity when that double would
  reach \<open>2 ^ 1024\<close> (IEEE 754 binary64, as ECMAScript prescribes). Around a
  magnitude \<open>a\<close> the doubles are \<open>quantum a\<close> apart: \<open>2 ^ (k - 52)\<close> for \<open>a\<close> from
  \<open>2 ^ k\<close> up to \<open>2 ^ (k + 1)\<close>, and \<open>2 ^ (-1074)\<close> for \<open>a\<close> below \<open>2 ^ (-1022)\<close>,
  where a small quotient underflows to 0.
\<close>

definition roundHalfEven :: "real \<Rightarrow> int" where
  "roundHalfEven x =
     (let f = \<lfloor>x\<rfloor>; d = x - of_int f
      in if d < 1 / 2 then f
         else if 1 / 2 < d then f + 1
         else if even f then f else f + 1)"

definition quantum :: "real \<Rightarrow> real" where
  "quantum a =
     (if a < 1 / 2 ^ 1022 then 1 / 2 ^ 1074
      else 2 powr (of_int \<lfloor>log 2 a\<rfloor> - 52))"

definition DOUBLE_OVERFLOW :: real where
  "DOUBLE_OVERFLOW = 2 ^ 1024"

definition roundToDouble :: "real \<Rightarrow> jsnum" where
  "roundToDouble x =
     (if x = 0 then Fin 0
      else
        let q = quantum \<bar>x\<bar>;
            r = of_int (roundHalfEven (x / q)) * q
        in if DOUBLE_OVERFLOW \<le> r then PosInf
           else if r \<le> - DOUBLE_OVERFLOW then NegInf
           else Fin r)"

text \<open>
  \<open>a / b\<close>. A zero divisor gives an infinity or \<open>NaN\<close>, never a finite number;
  the zero is taken as \<open>+0\<close> here (with \<open>-0\<close> the two infinities change places).
\<close>

fun jsDiv :: "jsnum \<Rightarrow> jsnum \<Rightarrow> jsnum" where
  "jsDiv (Fin x) (Fin y) =
     (if y = 0 then (if x = 0 then NaN else if 0 < x then PosInf else NegInf)
      else roundToDouble (x / y))"
| "jsDiv (Fin x) PosInf = Fin 0"
| "jsDiv (Fin x) NegInf = Fin 0"
| "jsDiv (Fin x) NaN = NaN"
| "jsDiv PosInf (Fin y) = (if 0 \<le> y then PosInf else NegInf)"
| "jsDiv NegInf (Fin y) = (if 0 \<le> y then NegInf else PosInf)"
| "jsDiv PosInf b = NaN"
| "jsDiv NegInf b = NaN"
| "jsDiv NaN b = NaN"

text \<open>\<open>Math.ceil\<close>.\<close>

fun mathCeil :: "jsnum \<Rightarrow> jsnum" where
  "mathCeil (Fin x) = Fin (of_int \<lceil>x\<rceil>)"
| "mathCeil NaN = NaN"
| "mathCeil PosInf = PosInf"
| "mathCeil NegInf = NegInf"

text \<open>The comparisons \<open>a <= r\<close> and \<open>a > r\<close> with a finite \<open>r\<close>.\<close>

fun jsLe :: "jsnum \<Rightarrow> real \<Rightarrow> bool" where
  "jsLe (Fin x) r = (x \<le> r)"
| "jsLe NegInf r = True"
| "jsLe PosInf r = False"
| "jsLe NaN r = False"


subsection \<open>transfer-integrity: chunk arithmetic\<close>

text \<open>
  None of \<open><=\<close>, \<open>/\<close> and \<open>Math.ceil\<close> throws, so the function has a result for
  every pair of numbers and the model has no error branch.
\<close>

definition calculateTotalChunks :: "jsnum \<Rightarrow> jsnum \<Rightarrow> jsnum" where
  "calculateTotalChunks fileSize chunkSize =
     (if jsLe chunkSize 0 then Fin 0
      else mathCeil (jsDiv fileSize chunkSize))"

definition bytesForChunkIndex :: "int \<Rightarrow> real \<Rightarrow> real \<Rightarrow> real" where
  "bytesForChunkIndex chunkIndex chunkSize fileSize =
     (let bytes = of_int (max 0 chunkIndex) * max 0 chunkSize
      in min bytes (max 0 fileSize))"

fun normalizeChunkIndex :: "jsnum \<Rightarrow> int \<Rightarrow> int" where
  "normalizeChunkIndex (Fin x) totalChunks =
     (if x \<le> 0 then 0
      else if of_int totalChunks \<le> x then totalChunks
      else \<lfloor>x\<rfloor>)"
| "normalizeChunkIndex NaN totalChunks = 0"
| "normalizeChunkIndex PosInf totalChunks = 0"
| "normalizeChunkIndex NegInf totalChunks = 0"

subsection \<open>adaptive-chunk: the chunk-size planner\<close>

definition MIN_CHUNK_SIZE_BYTES :: real where
  "MIN_CHUNK_SIZE_BYTES = 16 * 1024"

definition CHUNK_SIZE_STEP_BYTES :: real where
  "CHUNK_SIZE_STEP_BYTES = 4 * 1024"

definition MESSAGE_OVERHEAD_BYTES :: real where
  "MESSAGE_OVERHEAD_BYTES = 1024"

definition RTT_FAST_MS :: real where "RTT_FAST_MS = 60"
definition RTT_MEDIUM_MS :: real where "RTT_MEDIUM_MS = 140"
definition RTT_SLOW_MS :: real where "RTT_SLOW_MS = 280"

datatype plan_reason = Default | RttAdaptive | MaxMessageSize

record AdaptiveChunkPlan =
  plan_chunkSize :: real
  plan_rttMs :: "real option"
  plan_messageLimit :: "real option"
  plan_reason :: plan_reason

definition roundChunkSize :: "real \<Rightarrow> real" where
  "roundChunkSize v =
     (let rounded = of_int \<lfloor>v / CHUNK_SIZE_STEP_BYTES\<rfloor> * CHUNK_SIZE_STEP_BYTES
      in max MIN_CHUNK_SIZE_BYTES rounded)"

text \<open>
  \<open>!maxMessageSize\<close> is true for \<open>null\<close> and for the number \<open>0\<close>.
\<close>

definition clampChunkSizeByMaxMessageSize :: "real \<Rightarrow> real option \<Rightarrow> real" where
  "clampChunkSizeByMaxMessageSize desiredChunkSize maxMessageSize =
     (let desired = roundChunkSize desiredChunkSize
      in case maxMessageSize of
           None \<Rightarrow> desired
         | Some m \<Rightarrow>
             if m = 0 then desired
             else let safeLimit = max MIN_CHUNK_SIZE_BYTES (m - MESSAGE_OVERHEAD_BYTES)
                  in min desired (roundChunkSize safeLimit))"

definition chooseChunkSizeByRtt :: "real \<Rightarrow> real option \<Rightarrow> real" where
  "chooseChunkSizeByRtt baseChunkSize rttMs =
     (case rttMs of
        None \<Rightarrow> roundChunkSize baseChunkSize
      | Some r \<Rightarrow>
          if r \<le> RTT_FAST_MS then roundChunkSize baseChunkSize
          else if r \<le> RTT_MEDIUM_MS then roundChunkSize (min baseChunkSize (48 * 1024))
          else if r \<le> RTT_SLOW_MS then roundChunkSize (min baseChunkSize (32 * 1024))
          else roundChunkSize (min baseChunkSize MIN_CHUNK_SIZE_BYTES))"

definition buildAdaptiveChunkPlan ::
  "real \<Rightarrow> real option \<Rightarrow> real option \<Rightarrow> AdaptiveChunkPlan" where
  "buildAdaptiveChunkPlan baseChunkSize maxMessageSize rttMs =
     (let byRtt = chooseChunkSizeByRtt baseChunkSize rttMs;
          byMessageLimit = clampChunkSizeByMaxMessageSize byRtt maxMessageSize;
          reason0 = (if rttMs \<noteq> None \<and> byRtt \<noteq> roundChunkSize baseChunkSize
                     then RttAdaptive else Default);
          reason1 = (if byMessageLimit < byRtt then MaxMessageSize else reason0)
      in \<lparr> plan_chunkSize = byMessageLimit,
           plan_rttMs = rttMs,
           plan_messageLimit = maxMessageSize,
           plan_reason = reason1 \<rparr>)"

text \<open>
  The size the specification describes for a value: rounded down to a multiple of
  4 KiB and never below 16 KiB.
\<close>

definition down4k_min16k :: "real \<Rightarrow> real" where
  "down4k_min16k v = max 16384 (4096 * of_int \<lfloor>v / 4096\<rfloor>)"

text \<open>
  The RTT tiers as the specification lists them: no sample or at most 60 ms keeps
  the base, at most 140 ms caps at 48 KiB, at most 280 ms caps at 32 KiB, above
  that caps at 16 KiB.
\<close>

definition rtt_tier_spec :: "real \<Rightarrow> real option \<Rightarrow> real" where
  "rtt_tier_spec base rtt =
     down4k_min16k
       (case rtt of
          None \<Rightarrow> base
        | Some r \<Rightarrow>
            if r \<le> 60 then base
            else if r \<le> 140 then min base 49152
            else if r \<le> 280 then min base 32768
            else min base 16384)"

section \<open>send-queue: the serial send queue\<close>

datatype OutgoingQueueItemStatus = Queued | Sending | Completed | Failed

record JsFile =
  file_name :: string
  file_size :: real
  file_type :: string
  file_lastModified :: real

record OutgoingQueueItem =
  qi_id :: string
  qi_file :: JsFile
  qi_status :: OutgoingQueueItemStatus
  qi_sentBytes :: real
  qi_totalBytes :: real
  qi_progressPercent :: real
  qi_attempts :: int
  qi_errorMessage :: "string option"
  qi_addedAt :: real
  qi_startedAt :: "real option"
  qi_finishedAt :: "real option"

record SendQueueState =
  sq_items :: "OutgoingQueueItem list"
  sq_activeItemId :: "string option"
  sq_revision :: int

datatype SendQueueAction =
    Enqueue "OutgoingQueueItem list"
  | MarkSending string
  | UpdateProgress string real real
  | MarkCompleted string
  | MarkFailed string string
  | Retry string
  | Remove string
  | ClearCompleted
  | Reset

record SendQueueSummary =
  sum_total :: nat
  sum_queued :: nat
  sum_sending :: nat
  sum_completed :: nat
  sum_failed :: nat

fun clampProgress :: "jsnum \<Rightarrow> real" where
  "clampProgress (Fin p) = max 0 (min 100 p)"
| "clampProgress NaN = 0"
| "clampProgress PosInf = 0"
| "clampProgress NegInf = 0"

text \<open>
  \<open>withRevision\<close> compares the item arrays by reference. The flag \<open>sameArray\<close>
  says whether the caller passes the very array of the state; every call in the
  reducer passes an array freshly built by spread, \<open>map\<close> or \<open>filter\<close>.
\<close>

definition withRevision ::
  "SendQueueState \<Rightarrow> bool \<Rightarrow> OutgoingQueueItem list \<Rightarrow> string option \<Rightarrow> SendQueueState" where
  "withRevision state sameArray items activeItemId =
     (let itemsChanged = \<not> sameArray;
          activeChanged = (activeItemId \<noteq> sq_activeItemId state)
      in if \<not> itemsChanged \<and> \<not> activeChanged then state
         else \<lparr> sq_items = items,
                sq_activeItemId = activeItemId,
                sq_revision = sq_revision state + 1 \<rparr>)"

definition createInitialSendQueueState :: SendQueueState where
  "createInitialSendQueueState =
     \<lparr> sq_items = [], sq_activeItemId = None, sq_revision = 0 \<rparr>"

fun countStatuses :: "OutgoingQueueItem list \<Rightarrow> SendQueueSummary \<Rightarrow> SendQueueSummary" where
  "countStatuses [] summary = summary"
| "countStatuses (item # rest) summary =
     countStatuses rest
       (case qi_status item of
          Queued \<Rightarrow> summary\<lparr>sum_queued := sum_queued summary + 1\<rparr>
        | Sending \<Rightarrow> summary\<lparr>sum_sending := sum_sending summary + 1\<rparr>
        | Completed \<Rightarrow> summary\<lparr>sum_completed := sum_completed summary + 1\<rparr>
        | Failed \<Rightarrow> summary\<lparr>sum_failed := sum_failed summary + 1\<rparr>)"

definition getSendQueueSummary :: "SendQueueState \<Rightarrow> SendQueueSummary" where
  "getSendQueueSummary state =
     countStatuses (sq_items state)
       \<lparr> sum_total = length (sq_items state), sum_queued = 0, sum_sending = 0,
         sum_completed = 0, sum_failed = 0 \<rparr>"

definition markSendingItem :: "real \<Rightarrow> string \<Rightarrow> OutgoingQueueItem \<Rightarrow> OutgoingQueueItem" where
  "markSendingItem now itemId item =
     (if qi_id item = itemId then
        item\<lparr> qi_status := Sending, qi_attempts := qi_attempts item + 1,
              qi_errorMessage := None, qi_startedAt := Some now, qi_finishedAt := None \<rparr>
      else if qi_status item = Sending then
        item\<lparr> qi_status := Queued, qi_errorMessage := None,
              qi_startedAt := None, qi_finishedAt := None \<rparr>
      else item)"

definition updateProgressItem :: "string \<Rightarrow> real \<Rightarrow> real \<Rightarrow> OutgoingQueueItem \<Rightarrow> OutgoingQueueItem" where
  "updateProgressItem itemId sentBytes totalBytes item =
     (if qi_id item \<noteq> itemId \<or> qi_status item \<noteq> Sending then item
      else
        let normalizedTotalBytes = max 0 totalBytes;
            normalizedSentBytes = max 0 (min sentBytes normalizedTotalBytes);
            progressPercent =
              (if normalizedTotalBytes > 0
               then clampProgress (Fin ((normalizedSentBytes / normalizedTotalBytes) * 100))
               else 0)
        in item\<lparr> qi_sentBytes := normalizedSentBytes,
                 qi_totalBytes := normalizedTotalBytes,
                 qi_progressPercent := progressPercent \<rparr>)"

definition markCompletedItem :: "real \<Rightarrow> string \<Rightarrow> OutgoingQueueItem \<Rightarrow> OutgoingQueueItem" where
  "markCompletedItem now itemId item =
     (if qi_id item \<noteq> itemId then item
      else item\<lparr> qi_status := Completed, qi_sentBytes := qi_totalBytes item,
                 qi_progressPercent := 100, qi_errorMessage := None,
                 qi_finishedAt := Some now \<rparr>)"

definition markFailedItem :: "real \<Rightarrow> string \<Rightarrow> string \<Rightarrow> OutgoingQueueItem \<Rightarrow> OutgoingQueueItem" where
  "markFailedItem now itemId errorMessage item =
     (if qi_id item \<noteq> itemId then item
      else item\<lparr> qi_status := Failed, qi_errorMessage := Some errorMessage,
                 qi_finishedAt := Some now \<rparr>)"

definition retryItem :: "string \<Rightarrow> OutgoingQueueItem \<Rightarrow> OutgoingQueueItem" where
  "retryItem itemId item =
     (if qi_id item \<noteq> itemId \<or> qi_status item \<noteq> Failed then item
      else item\<lparr> qi_status := Queued, qi_sentBytes := 0, qi_progressPercent := 0,
                 qi_errorMessage := None, qi_startedAt := None, qi_finishedAt := None \<rparr>)"

text \<open>
  The reducer. \<open>now\<close> is the value \<open>Date.now()\<close> returns during the call. The
  \<open>found\<close> flags of the source are set inside the \<open>map\<close> callbacks exactly when
  some item takes the rewritten branch.
\<close>

fun sendQueueReducer :: "real \<Rightarrow> SendQueueState \<Rightarrow> SendQueueAction \<Rightarrow> SendQueueState" where
  "sendQueueReducer now state (Enqueue newItems) =
     (if length newItems = 0 then state
      else withRevision state False (sq_items state @ newItems) (sq_activeItemId state))"
| "sendQueueReducer now state (MarkSending itemId) =
     (let found = (\<exists>item \<in> set (sq_items state). qi_id item = itemId);
          items = map (markSendingItem now itemId) (sq_items state)
      in if \<not> found then state
         else withRevision state False items (Some itemId))"
| "sendQueueReducer now state (UpdateProgress itemId sentBytes totalBytes) =
     (let items = map (updateProgressItem itemId sentBytes totalBytes) (sq_items state)
      in withRevision state False items (sq_activeItemId state))"
| "sendQueueReducer now state (MarkCompleted itemId) =
     (let found = (\<exists>item \<in> set (sq_items state). qi_id item = itemId);
          items = map (markCompletedItem now itemId) (sq_items state)
      in if \<not> found then state
         else let activeItemId = (if sq_activeItemId state = Some itemId then None
                                  else sq_activeItemId state)
              in withRevision state False items activeItemId)"
| "sendQueueReducer now state (MarkFailed itemId errorMessage) =
     (let found = (\<exists>item \<in> set (sq_items state). qi_id item = itemId);
          items = map (markFailedItem now itemId errorMessage) (sq_items state)
      in if \<not> found then state
         else let activeItemId = (if sq_activeItemId state = Some itemId then None
                                  else sq_activeItemId state)
              in withRevision state False items activeItemId)"
| "sendQueueReducer now state (Retry itemId) =
     (let found = (\<exists>item \<in> set (sq_items state).
                     qi_id item = itemId \<and> qi_status item = Failed);
          items = map (retryItem itemId) (sq_items state)
      in if \<not> found then state
         else withRevision state False items (sq_activeItemId state))"
| "sendQueueReducer now state (Remove itemId) =
     (case find (\<lambda>item. qi_id item = itemId) (sq_items state) of
        None \<Rightarrow> state
      | Some target \<Rightarrow>
          if qi_status target = Sending then state
          else
            let items = filter (\<lambda>item. qi_id item \<noteq> itemId) (sq_items state);
                activeItemId = (if sq_activeItemId state = Some itemId then None
                                else sq_activeItemId state)
            in withRevision state False items activeItemId)"
| "sendQueueReducer now state ClearCompleted =
     (let items = filter (\<lambda>item. qi_status item \<noteq> Completed) (sq_items state)
      in if length items = length (sq_items state) then state
         else withRevision state False items (sq_activeItemId state))"
| "sendQueueReducer now state Reset =
     (if length (sq_items state) = 0 \<and> sq_activeItemId state = None then state
      else \<lparr> sq_items = [], sq_activeItemId = None, sq_revision = sq_revision state + 1 \<rparr>)"

text \<open>
  The states the queue can be in: the initial state, and every state the reducer
  returns from one of them, for any action and any clock value.
\<close>

inductive reachable :: "SendQueueState \<Rightarrow> bool" where
  reachable_init: "reachable createInitialSendQueueState"
| reachable_step: "reachable s \<Longrightarrow> reachable (sendQueueReducer now s a)"

text \<open>
  An action is fed with fresh work when, if it is an \<open>enqueue\<close>, none of its items
  is already \<open>sending\<close> and the ids of its items differ from each other and from
  the ids in the queue.
\<close>

fun freshEnqueue :: "SendQueueState \<Rightarrow> SendQueueAction \<Rightarrow> bool" where
  "freshEnqueue s (Enqueue newItems) =
     (list_all (\<lambda>item. qi_status item \<noteq> Sending) newItems
      \<and> distinct (map qi_id (sq_items s @ newItems)))"
| "freshEnqueue s a = True"

inductive reachableFresh :: "SendQueueState \<Rightarrow> bool" where
  fresh_init: "reachableFresh createInitialSendQueueState"
| fresh_step: "reachableFresh s \<Longrightarrow> freshEnqueue s a \<Longrightarrow> reachableFresh (sendQueueReducer now s a)"

text \<open>
  \<open>createOutgoingQueueItems\<close>: \<open>now\<close> is the clock value and \<open>ids\<close> are the
  values \<open>createQueueItemId\<close> returns, one for each file.
\<close>

definition createOutgoingQueueItems ::
  "real \<Rightarrow> string list \<Rightarrow> JsFile list \<Rightarrow> OutgoingQueueItem list" where
  "createOutgoingQueueItems now ids files =
     map (\<lambda>(index, (newId, f)).
            \<lparr> qi_id = newId, qi_file = f, qi_status = Queued, qi_sentBytes = 0,
              qi_totalBytes = file_size f, qi_progressPercent = 0, qi_attempts = 0,
              qi_errorMessage = None, qi_addedAt = now + of_nat index,
              qi_startedAt = None, qi_finishedAt = None \<rparr>)
         (enumerate 0 (zip ids files))"

definition queueInv :: "SendQueueState \<Rightarrow> bool" where
  "queueInv s \<longleftrightarrow> distinct (map qi_id (sq_items s))
     \<and> length (filter (\<lambda>item. qi_status item = Sending) (sq_items s)) \<le> 1"

definition twoFiles :: "JsFile list" where
  "twoFiles =
     [\<lparr> file_name = ''a.bin'', file_size = 128, file_type = ''application/octet-stream'',
        file_lastModified = 0 \<rparr>,
      \<lparr> file_name = ''b.bin'', file_size = 256, file_type = ''application/octet-stream'',
        file_lastModified = 0 \<rparr>]"

text \<open>
  A queue used in the examples: two files are enqueued and the first one is being
  sent.
\<close>

definition queueExample :: SendQueueState where
  "queueExample =
     sendQueueReducer 1
       (sendQueueReducer 0 createInitialSendQueueState
          (Enqueue (createOutgoingQueueItems 0 [''q1'', ''q2''] twoFiles)))
       (MarkSending ''q1'')"

section \<open>structured-event: the observability envelope\<close>

text \<open>
  A value of type \<open>unknown\<close>, as \<open>JSON.parse\<close> or any caller may supply it. An
  object is the list of its own enumerable properties in order; a property read
  yields \<open>undefined\<close> when the name is absent.
\<close>

datatype jsval =
    JUndefined
  | JNull
  | JBool bool
  | JNum jsnum
  | JStr string
  | JArr "jsval list"
  | JObj "(string \<times> jsval) list"

fun isRecord :: "jsval \<Rightarrow> bool" where
  "isRecord (JObj props) = True"
| "isRecord v = False"

definition getProp :: "(string \<times> jsval) list \<Rightarrow> string \<Rightarrow> jsval" where
  "getProp props name = (case map_of props name of None \<Rightarrow> JUndefined | Some v \<Rightarrow> v)"

definition STRUCTURED_EVENT_KIND :: string where
  "STRUCTURED_EVENT_KIND = ''peershare.event''"

definition STRUCTURED_EVENT_VERSION :: real where
  "STRUCTURED_EVENT_VERSION = 1"

record StructuredEventEnvelope =
  env_kind :: string
  env_version :: real
  env_event :: string
  env_timestamp :: jsnum
  env_payload :: "(string \<times> jsval) list"

definition createStructuredEventEnvelope ::
  "string \<Rightarrow> (string \<times> jsval) list \<Rightarrow> jsnum \<Rightarrow> StructuredEventEnvelope" where
  "createStructuredEventEnvelope event payload timestamp =
     \<lparr> env_kind = STRUCTURED_EVENT_KIND,
       env_version = STRUCTURED_EVENT_VERSION,
       env_event = event,
       env_timestamp = timestamp,
       env_payload = payload \<rparr>"

text \<open>The envelope object, seen as a value of type \<open>unknown\<close>.\<close>

definition envelopeValue :: "StructuredEventEnvelope \<Rightarrow> jsval" where
  "envelopeValue e =
     JObj [(''kind'', JStr (env_kind e)),
           (''version'', JNum (Fin (env_version e))),
           (''event'', JStr (env_event e)),
           (''timestamp'', JNum (env_timestamp e)),
           (''payload'', JObj (env_payload e))]"

fun typeofString :: "jsval \<Rightarrow> bool" where
  "typeofString (JStr s) = True"
| "typeofString v = False"

fun finiteNumber :: "jsval \<Rightarrow> bool" where
  "finiteNumber (JNum n) = isFinite n"
| "finiteNumber v = False"

definition parseFields :: "(string \<times> jsval) list \<Rightarrow> StructuredEventEnvelope option" where
  "parseFields raw =
     (let kind = getProp raw ''kind'';
          version = getProp raw ''version'';
          event = getProp raw ''event'';
          timestamp = getProp raw ''timestamp'';
          payload = getProp raw ''payload''
      in if kind = JStr STRUCTURED_EVENT_KIND
            \<and> version = JNum (Fin STRUCTURED_EVENT_VERSION)
            \<and> typeofString event \<and> finiteNumber timestamp \<and> isRecord payload
         then (case (event, timestamp, payload) of
                 (JStr ev, JNum ts, JObj p) \<Rightarrow>
                   Some \<lparr> env_kind = STRUCTURED_EVENT_KIND,
                          env_version = STRUCTURED_EVENT_VERSION,
                          env_event = ev, env_timestamp = ts, env_payload = p \<rparr>
               | _ \<Rightarrow> None)
         else if typeofString event \<and> finiteNumber timestamp
         then (case (event, timestamp) of
                 (JStr ev, JNum ts) \<Rightarrow>
                   let legacyPayload =
                         filter (\<lambda>(name, v). name \<noteq> ''event'' \<and> name \<noteq> ''timestamp'') raw
                   in Some (createStructuredEventEnvelope ev legacyPayload ts)
               | _ \<Rightarrow> None)
         else None)"

fun parseStructuredEventEnvelope :: "jsval \<Rightarrow> StructuredEventEnvelope option" where
  "parseStructuredEventEnvelope (JObj raw) = parseFields raw"
| "parseStructuredEventEnvelope v = None"

text \<open>
  A record has the standard shape when the parser's first test accepts its
  \<open>kind\<close>, \<open>version\<close> and \<open>payload\<close> fields.
\<close>

text \<open>A standard envelope with one more field, used in the examples.\<close>

definition standardWithExtra :: "(string \<times> jsval) list" where
  "standardWithExtra =
     [(''kind'', JStr ''peershare.event''), (''version'', JNum (Fin 1)),
      (''event'', JStr ''transfer_done''), (''timestamp'', JNum (Fin 1800)),
      (''payload'', JObj [(''fileId'', JStr ''f1'')]), (''extra'', JBool True)]"

definition standardShape :: "(string \<times> jsval) list \<Rightarrow> bool" where
  "standardShape raw \<longleftrightarrow>
     getProp raw ''kind'' = JStr ''peershare.event''
     \<and> getProp raw ''version'' = JNum (Fin 1)
     \<and> isRecord (getProp raw ''payload'')"

section \<open>transfer-integrity: checksums\<close>

type_synonym bytes = "8 word list"

definition hexDigit :: "nat \<Rightarrow> char" where
  "hexDigit d = ''0123456789abcdef'' ! d"

text \<open>\<open>toString(16)\<close> of a non-negative integer.\<close>

fun toStringHex :: "nat \<Rightarrow> string" where
  "toStringHex n =
     (if n < 16 then [hexDigit n]
      else toStringHex (n div 16) @ [hexDigit (n mod 16)])"

declare toStringHex.simps [simp del]

definition padStart :: "nat \<Rightarrow> char \<Rightarrow> string \<Rightarrow> string" where
  "padStart targetLength c s = replicate (targetLength - length s) c @ s"

definition toHex :: "bytes \<Rightarrow> string" where
  "toHex view = concat (map (\<lambda>b. padStart 2 (CHR ''0'') (toStringHex (unat b))) view)"

text \<open>
  The fallback hash: \<open>hash ^= data[i]\<close>, \<open>Math.imul\<close> and \<open>>>>= 0\<close> are the
  operations of 32-bit words.
\<close>

definition fnv1a32Hex :: "bytes \<Rightarrow> string" where
  "fnv1a32Hex bs =
     (let hash = foldl (\<lambda>(h :: 32 word) b. (h XOR ucast b) * 0x01000193) 0x811c9dc5 bs
      in padStart 8 (CHR ''0'') (toStringHex (unat hash)))"

text \<open>
  \<open>digest\<close> is \<open>crypto.subtle.digest("SHA-256", _)\<close> where the runtime offers it,
  and \<open>None\<close> where it does not.
\<close>

definition hashArrayBuffer :: "(bytes \<Rightarrow> bytes) option \<Rightarrow> bytes \<Rightarrow> string" where
  "hashArrayBuffer digest bs =
     (case digest of
        Some sha256 \<Rightarrow> toHex (sha256 bs)
      | None \<Rightarrow> fnv1a32Hex bs)"

text \<open>A string of the model is the sequence of its UTF-8 bytes.\<close>

definition encodeText :: "string \<Rightarrow> bytes" where
  "encodeText text = map (\<lambda>c. of_nat (of_char c)) text"

definition hashText :: "(bytes \<Rightarrow> bytes) option \<Rightarrow> string \<Rightarrow> string" where
  "hashText digest text = hashArrayBuffer digest (encodeText text)"

fun joinLines :: "string list \<Rightarrow> string" where
  "joinLines [] = []"
| "joinLines [x] = x"
| "joinLines (x # y # rest) = x @ [CHR 0x0A] @ joinLines (y # rest)"

definition deriveFileChecksumFromChunkChecksums ::
  "(bytes \<Rightarrow> bytes) option \<Rightarrow> string list \<Rightarrow> string" where
  "deriveFileChecksumFromChunkChecksums digest chunkChecksums =
     hashText digest (joinLines chunkChecksums)"

section \<open>transfer-store: persisted sessions and chunks\<close>

datatype PersistedTransferDirection = Incoming | Outgoing

datatype PersistedTransferStatus = Active | SessionCompleted | SessionFailed

record FileMetadata =
  md_id :: string
  md_name :: string
  md_size :: real
  md_type :: string
  md_totalChunks :: int
  md_chunkSize :: real
  md_uploadId :: "string option"
  md_protocolVersion :: "real option"
  md_fileChecksum :: "string option"
  md_fingerprint :: "string option"

record PersistedTransferSession =
  ps_sessionKey :: string
  ps_direction :: PersistedTransferDirection
  ps_status :: PersistedTransferStatus
  ps_uploadId :: string
  ps_fileId :: string
  ps_fileName :: string
  ps_fileType :: string
  ps_fileSize :: real
  ps_chunkSize :: real
  ps_totalChunks :: int
  ps_nextChunkIndex :: int
  ps_bytesTransferred :: real
  ps_remotePeerId :: string
  ps_fingerprint :: "string option"
  ps_fileChecksum :: "string option"
  ps_createdAt :: real
  ps_updatedAt :: real

record PersistedChunkRecord =
  pc_uploadId :: string
  pc_chunkIndex :: int
  pc_data :: bytes
  pc_checksum :: string
  pc_size :: nat
  pc_updatedAt :: real

text \<open>
  The IndexedDB database: the session store keyed by \<open>sessionKey\<close>, the chunk store
  keyed by \<open>[uploadId, chunkIndex]\<close>, and whether the runtime has IndexedDB at all.
  Requests of the database are taken to succeed; their rejections are not modelled.
\<close>

record TransferStore =
  ts_supported :: bool
  ts_sessions :: "string \<rightharpoonup> PersistedTransferSession"
  ts_chunks :: "(string \<times> int) \<rightharpoonup> PersistedChunkRecord"

definition MAX_SAFE_INTEGER :: int where
  "MAX_SAFE_INTEGER = 9007199254740991"

definition directionName :: "PersistedTransferDirection \<Rightarrow> string" where
  "directionName d = (case d of Incoming \<Rightarrow> ''incoming'' | Outgoing \<Rightarrow> ''outgoing'')"

definition createTransferSessionKey :: "PersistedTransferDirection \<Rightarrow> string \<Rightarrow> string" where
  "createTransferSessionKey direction uploadId = directionName direction @ '':'' @ uploadId"

definition isSupported :: "TransferStore \<Rightarrow> bool" where
  "isSupported store = ts_supported store"

definition putSession :: "TransferStore \<Rightarrow> PersistedTransferSession \<Rightarrow> TransferStore" where
  "putSession store session =
     (if \<not> isSupported store then store
      else store\<lparr> ts_sessions := (ts_sessions store)(ps_sessionKey session \<mapsto> session) \<rparr>)"

definition getSession :: "TransferStore \<Rightarrow> string \<Rightarrow> PersistedTransferSession option" where
  "getSession store sessionKey =
     (if \<not> isSupported store then None else ts_sessions store sessionKey)"

definition putChunk ::
  "real \<Rightarrow> TransferStore \<Rightarrow> string \<Rightarrow> int \<Rightarrow> bytes \<Rightarrow> string \<Rightarrow> TransferStore" where
  "putChunk now store uploadId chunkIndex bs checksum =
     (if \<not> isSupported store then store
      else store\<lparr> ts_chunks := (ts_chunks store)((uploadId, chunkIndex) \<mapsto>
             \<lparr> pc_uploadId = uploadId, pc_chunkIndex = chunkIndex, pc_data = bs,
               pc_checksum = checksum, pc_size = length bs, pc_updatedAt = now \<rparr>) \<rparr>)"

definition getChunk :: "TransferStore \<Rightarrow> string \<Rightarrow> int \<Rightarrow> PersistedChunkRecord option" where
  "getChunk store uploadId chunkIndex =
     (if \<not> isSupported store then None else ts_chunks store (uploadId, chunkIndex))"

function contiguousFrom :: "TransferStore \<Rightarrow> string \<Rightarrow> int \<Rightarrow> int \<Rightarrow> int" where
  "contiguousFrom store uploadId totalChunks contiguous =
     (if contiguous < totalChunks then
        (case getChunk store uploadId contiguous of
           None \<Rightarrow> contiguous
         | Some chunk \<Rightarrow> contiguousFrom store uploadId totalChunks (contiguous + 1))
      else contiguous)"
  by pat_completeness auto
termination
  by (relation "measure (\<lambda>(store, uploadId, totalChunks, contiguous). nat (totalChunks - contiguous))")
     auto

definition getContiguousChunkCount :: "TransferStore \<Rightarrow> string \<Rightarrow> int \<Rightarrow> int" where
  "getContiguousChunkCount store uploadId totalChunks =
     contiguousFrom store uploadId totalChunks 0"

text \<open>
  The exceptions of the runtime that the receiving side can meet:
  \<open>IDBKeyRange.bound\<close> throws a \<open>DataError\<close> when the lower key is above the upper
  key, and an assignment to the \<open>length\<close> of an array throws a \<open>RangeError\<close> for a
  length that is negative or above \<open>2 ^ 32 - 1\<close>.
\<close>

datatype js_error = RangeError | DataError

text \<open>
  \<open>deleteChunksFrom\<close> builds the key range from \<open>[uploadId, max(0, fromChunk)]\<close>
  to \<open>[uploadId, MAX_SAFE_INTEGER]\<close>, which throws when the lower index is above
  the upper one, walks a cursor over the range and deletes every record it meets.
\<close>

definition deleteChunksFrom ::
  "TransferStore \<Rightarrow> string \<Rightarrow> int \<Rightarrow> js_error + TransferStore" where
  "deleteChunksFrom store uploadId fromChunk =
     (if \<not> isSupported store then Inr store
      else if MAX_SAFE_INTEGER < max 0 fromChunk then Inl DataError
      else Inr (store\<lparr> ts_chunks :=
             (\<lambda>(u, i). if u = uploadId \<and> max 0 fromChunk \<le> i \<and> i \<le> MAX_SAFE_INTEGER
                        then None else ts_chunks store (u, i)) \<rparr>))"

definition deleteUpload :: "TransferStore \<Rightarrow> string \<Rightarrow> TransferStore" where
  "deleteUpload store uploadId =
     (if \<not> isSupported store then store
      else store\<lparr> ts_sessions :=
             (\<lambda>k. case ts_sessions store k of
                     None \<Rightarrow> None
                   | Some session \<Rightarrow>
                       if ps_uploadId session = uploadId then None else Some session),
            ts_chunks :=
             (\<lambda>(u, i). if u = uploadId \<and> 0 \<le> i \<and> i \<le> MAX_SAFE_INTEGER
                        then None else ts_chunks store (u, i)) \<rparr>)"

section \<open>transfer-finalizer: assembling a received file\<close>

datatype FinalizeStorageMode = Opfs | Memory

record Blob =
  blob_parts :: "bytes list"
  blob_type :: "string option"

datatype FinalizeFromStoreResult =
    FinalizeMissingChunk int
  | FinalizeChecksumMismatch string
  | FinalizeSuccess Blob string FinalizeStorageMode

text \<open>
  A chunk sink: the chunks written so far, and whether it was aborted or closed.
  The in-memory sink keeps the MIME type for its blob; the file the OPFS sink
  returns gets its type from the browser (\<open>None\<close>). Aborting empties the in-memory
  array and removes the temporary OPFS file. Writes to the sink are taken to
  succeed, like the requests of the store, so the \<open>catch\<close> path of the finalizer
  (abort and rethrow) has no counterpart here.
\<close>

record ChunkSink =
  sink_mode :: FinalizeStorageMode
  sink_mimeType :: "string option"
  sink_chunks :: "bytes list"
  sink_aborted :: bool
  sink_closed :: bool

definition createInMemoryChunkSink :: "string \<Rightarrow> ChunkSink" where
  "createInMemoryChunkSink mimeType =
     \<lparr> sink_mode = Memory, sink_mimeType = Some mimeType, sink_chunks = [],
       sink_aborted = False, sink_closed = False \<rparr>"

text \<open>\<open>opfs\<close> says whether the runtime hands out an OPFS writable.\<close>

definition createOpfsChunkSink :: "bool \<Rightarrow> string \<Rightarrow> ChunkSink option" where
  "createOpfsChunkSink opfs uploadId =
     (if \<not> opfs then None
      else Some \<lparr> sink_mode = Opfs, sink_mimeType = None, sink_chunks = [],
                  sink_aborted = False, sink_closed = False \<rparr>)"

definition sinkWrite :: "ChunkSink \<Rightarrow> bytes \<Rightarrow> ChunkSink" where
  "sinkWrite sink chunk = sink\<lparr> sink_chunks := sink_chunks sink @ [chunk] \<rparr>"

definition sinkClose :: "ChunkSink \<Rightarrow> Blob \<times> ChunkSink" where
  "sinkClose sink =
     (\<lparr> blob_parts = sink_chunks sink, blob_type = sink_mimeType sink \<rparr>,
      sink\<lparr> sink_closed := True \<rparr>)"

definition sinkAbort :: "ChunkSink \<Rightarrow> ChunkSink" where
  "sinkAbort sink = sink\<lparr> sink_chunks := [], sink_aborted := True \<rparr>"

text \<open>
  The loop over the chunk indices: \<open>Inl\<close> carries the first index without a stored
  chunk, \<open>Inr\<close> the checksums collected in index order; both carry the sink.
\<close>

function finalizeLoop ::
  "TransferStore \<Rightarrow> string \<Rightarrow> int \<Rightarrow> int \<Rightarrow> ChunkSink \<Rightarrow> string list
   \<Rightarrow> (int \<times> ChunkSink) + (string list \<times> ChunkSink)" where
  "finalizeLoop store uploadId totalChunks i sink chunkChecksums =
     (if i < totalChunks then
        (case getChunk store uploadId i of
           None \<Rightarrow> Inl (i, sink)
         | Some chunk \<Rightarrow>
             finalizeLoop store uploadId totalChunks (i + 1)
               (sinkWrite sink (pc_data chunk)) (chunkChecksums @ [pc_checksum chunk]))
      else Inr (chunkChecksums, sink))"
  by pat_completeness auto
termination
  by (relation "measure (\<lambda>(store, uploadId, totalChunks, i, sink, acc). nat (totalChunks - i))")
     auto

text \<open>
  \<open>expectedChecksum && _\<close>: an absent checksum and the empty string are both
  falsy.
\<close>

definition truthyString :: "string option \<Rightarrow> bool" where
  "truthyString s = (case s of None \<Rightarrow> False | Some v \<Rightarrow> v \<noteq> [])"

definition finalizeIncomingTransferFromStore ::
  "bool \<Rightarrow> (bytes \<Rightarrow> bytes) option \<Rightarrow> TransferStore \<Rightarrow> string \<Rightarrow> FileMetadata
   \<Rightarrow> string option \<Rightarrow> FinalizeFromStoreResult \<times> ChunkSink" where
  "finalizeIncomingTransferFromStore opfs digest store uploadId metadata expectedChecksum =
     (let sink = (case createOpfsChunkSink opfs uploadId of
                    Some s \<Rightarrow> s
                  | None \<Rightarrow> createInMemoryChunkSink (md_type metadata))
      in case finalizeLoop store uploadId (md_totalChunks metadata) 0 sink [] of
           Inl (i, sink1) \<Rightarrow> (FinalizeMissingChunk i, sinkAbort sink1)
         | Inr (chunkChecksums, sink1) \<Rightarrow>
             let fileChecksum = deriveFileChecksumFromChunkChecksums digest chunkChecksums
             in if truthyString expectedChecksum \<and> Some fileChecksum \<noteq> expectedChecksum
                then (FinalizeChecksumMismatch fileChecksum, sinkAbort sink1)
                else let (blob, sink2) = sinkClose sink1
                     in (FinalizeSuccess blob fileChecksum (sink_mode sink2), sink2))"

text \<open>
  The checksums of the stored chunks \<open>0, \<dots>, totalChunks - 1\<close> in index order, and
  the parts of the assembled file.
\<close>

definition storedChecksums :: "TransferStore \<Rightarrow> string \<Rightarrow> int \<Rightarrow> string list" where
  "storedChecksums store uploadId totalChunks =
     map (\<lambda>i. case getChunk store uploadId i of None \<Rightarrow> [] | Some c \<Rightarrow> pc_checksum c)
         [0 .. totalChunks - 1]"

definition storedParts :: "TransferStore \<Rightarrow> string \<Rightarrow> int \<Rightarrow> bytes list" where
  "storedParts store uploadId totalChunks =
     map (\<lambda>i. case getChunk store uploadId i of None \<Rightarrow> [] | Some c \<Rightarrow> pc_data c)
         [0 .. totalChunks - 1]"

definition allChunksStored :: "TransferStore \<Rightarrow> string \<Rightarrow> int \<Rightarrow> bool" where
  "allChunksStored store uploadId totalChunks \<longleftrightarrow>
     (\<forall>i \<in> set [0 .. totalChunks - 1]. getChunk store uploadId i \<noteq> None)"

definition firstMissing :: "TransferStore \<Rightarrow> string \<Rightarrow> int \<Rightarrow> int \<Rightarrow> bool" where
  "firstMissing store uploadId totalChunks i \<longleftrightarrow>
     0 \<le> i \<and> i < totalChunks \<and> getChunk store uploadId i = None
     \<and> (\<forall>j \<in> set [0 .. i - 1]. getChunk store uploadId j \<noteq> None)"

text \<open>Stores and files used in the examples.\<close>

definition emptyStore :: TransferStore where
  "emptyStore = \<lparr> ts_supported = True, ts_sessions = Map.empty, ts_chunks = Map.empty \<rparr>"

definition emptyFile :: FileMetadata where
  "emptyFile = \<lparr> md_id = ''f1'', md_name = ''empty.bin'', md_size = 0,
      md_type = ''application/octet-stream'', md_totalChunks = 0, md_chunkSize = 65536,
      md_uploadId = Some ''u1'', md_protocolVersion = Some 1, md_fileChecksum = None,
      md_fingerprint = None \<rparr>"

definition chunkRecord :: "string \<Rightarrow> int \<Rightarrow> bytes \<Rightarrow> string \<Rightarrow> PersistedChunkRecord" where
  "chunkRecord u i bs checksum =
     \<lparr> pc_uploadId = u, pc_chunkIndex = i, pc_data = bs, pc_checksum = checksum,
       pc_size = length bs, pc_updatedAt = 0 \<rparr>"

definition storeOne :: TransferStore where
  "storeOne = \<lparr> ts_supported = True, ts_sessions = Map.empty,
      ts_chunks = [(''u1'', 0) \<mapsto> chunkRecord ''u1'' 0 [1, 2] ''aa''] \<rparr>"

definition storeTwo :: TransferStore where
  "storeTwo = \<lparr> ts_supported = True, ts_sessions = Map.empty,
      ts_chunks = [(''u1'', 0) \<mapsto> chunkRecord ''u1'' 0 [1, 2] ''aa'',
                   (''u1'', 1) \<mapsto> chunkRecord ''u1'' 1 [3] ''bb''] \<rparr>"

definition twoChunkFile :: FileMetadata where
  "twoChunkFile = \<lparr> md_id = ''f1'', md_name = ''two.bin'', md_size = 3,
      md_type = ''application/octet-stream'', md_totalChunks = 2, md_chunkSize = 2,
      md_uploadId = Some ''u1'', md_protocolVersion = Some 1, md_fileChecksum = None,
      md_fingerprint = None \<rparr>"

section \<open>webrtc-transfer: the receiving side of a connection\<close>

record IncomingTransferState =
  it_metadata :: FileMetadata
  it_receivedChunks :: int
  it_bytesReceived :: real
  it_expectedChunkIndex :: int
  it_ready :: bool
  it_uploadId :: string
  it_expectedFileChecksum :: "string option"
  it_chunkChecksums :: "string option list"
  it_hasPersistenceError :: bool

text \<open>
  The control messages this side sends: \<open>transfer-error\<close> with file id, code and
  message, \<open>receiver-ready\<close> with file id, upload id and resume chunk, and
  \<open>request-retransmit\<close> with file id, upload id, first chunk and reason.
\<close>

datatype TransferMessage =
    TransferError string string string
  | ReceiverReady string string int
  | RequestRetransmit string string int string

text \<open>
  The part of a \<open>P2PConnection\<close> the receiving side reads and writes:
  whether the data channel is open, the messages sent on it so far, the transfer
  maps, the store, and the offers handed to \<open>callbacks.onFileOffer\<close>. An array with
  holes is a list of options. Each handler runs to its end before the next starts;
  the interleaving of their \<open>await\<close> points is not modelled. A \<open>send\<close> on an open
  data channel is taken to succeed.
\<close>

record P2PConnection =
  c_dataChannelReady :: bool
  c_sent :: "TransferMessage list"
  c_incomingTransfers :: "string \<rightharpoonup> IncomingTransferState"
  c_inMemoryIncomingChunks :: "string \<rightharpoonup> bytes option list"
  c_currentReceivingFileId :: "string option"
  c_transferStore :: TransferStore
  c_remotePeerId :: string
  c_fileOffers :: "FileMetadata list"

definition isDataChannelReady :: "P2PConnection \<Rightarrow> bool" where
  "isDataChannelReady this = c_dataChannelReady this"

definition getUploadId :: "FileMetadata \<Rightarrow> string" where
  "getUploadId metadata =
     (case md_uploadId metadata of
        None \<Rightarrow> md_id metadata
      | Some u \<Rightarrow> if u = [] then md_id metadata else u)"

definition buildPersistedSession ::
  "real \<Rightarrow> PersistedTransferDirection \<Rightarrow> FileMetadata \<Rightarrow> string \<Rightarrow> PersistedTransferStatus
   \<Rightarrow> int \<Rightarrow> real \<Rightarrow> string option \<Rightarrow> string option \<Rightarrow> PersistedTransferSession" where
  "buildPersistedSession now direction metadata remotePeerId status nextChunkIndex
     bytesTransferred fingerprint fileChecksum =
     (let uploadId = getUploadId metadata;
          sessionKey = createTransferSessionKey direction uploadId
      in \<lparr> ps_sessionKey = sessionKey,
           ps_direction = direction,
           ps_status = status,
           ps_uploadId = uploadId,
           ps_fileId = md_id metadata,
           ps_fileName = md_name metadata,
           ps_fileType = md_type metadata,
           ps_fileSize = md_size metadata,
           ps_chunkSize = md_chunkSize metadata,
           ps_totalChunks = md_totalChunks metadata,
           ps_nextChunkIndex = nextChunkIndex,
           ps_bytesTransferred = bytesTransferred,
           ps_remotePeerId = remotePeerId,
           ps_fingerprint = fingerprint,
           ps_fileChecksum = fileChecksum,
           ps_createdAt = now,
           ps_updatedAt = now \<rparr>)"

text \<open>
  \<open>options.fingerprint ?? existing?.fingerprint\<close>: the option when it is supplied,
  else the field of the existing session, else nothing.
\<close>

definition coalesce :: "string option \<Rightarrow> PersistedTransferSession option
    \<Rightarrow> (PersistedTransferSession \<Rightarrow> string option) \<Rightarrow> string option" where
  "coalesce supplied existing field =
     (case supplied of
        Some v \<Rightarrow> Some v
      | None \<Rightarrow> (case existing of None \<Rightarrow> None | Some e \<Rightarrow> field e))"

definition upsertPersistedSession ::
  "real \<Rightarrow> P2PConnection \<Rightarrow> PersistedTransferDirection \<Rightarrow> FileMetadata
   \<Rightarrow> PersistedTransferStatus \<Rightarrow> int \<Rightarrow> real \<Rightarrow> string option \<Rightarrow> string option
   \<Rightarrow> P2PConnection" where
  "upsertPersistedSession now this direction metadata status nextChunkIndex bytesTransferred
     optFingerprint optFileChecksum =
     (if \<not> isSupported (c_transferStore this) then this
      else
        let existing = getSession (c_transferStore this)
                         (createTransferSessionKey direction (getUploadId metadata));
            session = buildPersistedSession now direction metadata (c_remotePeerId this)
                        status nextChunkIndex bytesTransferred
                        (coalesce optFingerprint existing ps_fingerprint)
                        (coalesce optFileChecksum existing ps_fileChecksum);
            session1 = (case existing of
                          None \<Rightarrow> session
                        | Some e \<Rightarrow> session\<lparr> ps_createdAt := ps_createdAt e \<rparr>)
        in this\<lparr> c_transferStore := putSession (c_transferStore this) session1 \<rparr>)"

definition sendTransferError ::
  "P2PConnection \<Rightarrow> string \<Rightarrow> string \<Rightarrow> string \<Rightarrow> P2PConnection" where
  "sendTransferError this fileId code message =
     (if \<not> isDataChannelReady this then this
      else this\<lparr> c_sent := c_sent this @ [TransferError fileId code message] \<rparr>)"

definition sendReceiverReady ::
  "P2PConnection \<Rightarrow> string \<Rightarrow> string \<Rightarrow> int \<Rightarrow> P2PConnection" where
  "sendReceiverReady this fileId uploadId resumeFromChunk =
     (if \<not> isDataChannelReady this then this
      else
        let this1 = (case c_incomingTransfers this fileId of
                       None \<Rightarrow> this
                     | Some transfer \<Rightarrow>
                         this\<lparr> c_incomingTransfers :=
                           (c_incomingTransfers this)(fileId \<mapsto> transfer\<lparr> it_ready := True \<rparr>) \<rparr>)
        in this1\<lparr> c_sent := c_sent this1 @ [ReceiverReady fileId uploadId resumeFromChunk] \<rparr>)"

text \<open>
  \<open>chunks.length = n\<close> cuts an array or pads it with holes; an \<open>n\<close> that is
  negative or above \<open>2 ^ 32 - 1\<close> makes the assignment throw a \<open>RangeError\<close>.
\<close>

definition MAX_ARRAY_LENGTH :: int where
  "MAX_ARRAY_LENGTH = 4294967295"

definition setLength :: "'a option list \<Rightarrow> int \<Rightarrow> js_error + 'a option list" where
  "setLength xs n =
     (if n < 0 \<or> MAX_ARRAY_LENGTH < n then Inl RangeError
      else Inr (take (nat n) xs @ replicate (nat n - length xs) None))"

text \<open>
  \<open>xs.slice(0, n)\<close>: the first \<open>n\<close> elements, and for a negative \<open>n\<close> all but
  the last \<open>-n\<close>.
\<close>

definition sliceTo :: "'a list \<Rightarrow> int \<Rightarrow> 'a list" where
  "sliceTo xs n =
     (if n < 0 then take (length xs - nat (- n)) xs else take (nat n) xs)"

text \<open>
  \<open>requestRetransmit\<close> receives the transfer object and updates it in place; the
  model returns the updated object beside the connection. The first component is
  the error with which the call rejects, if any: the \<open>DataError\<close> of
  \<open>deleteChunksFrom\<close> or the \<open>RangeError\<close> of the length assignment. The fields of
  the transfer are written before the points that can throw; the session is not
  written and no message is sent after a throw.
\<close>

definition requestRetransmit ::
  "real \<Rightarrow> P2PConnection \<Rightarrow> IncomingTransferState \<Rightarrow> jsnum \<Rightarrow> string
   \<Rightarrow> js_error option \<times> IncomingTransferState \<times> P2PConnection" where
  "requestRetransmit now this transfer fromChunk reason =
     (let startChunk = normalizeChunkIndex fromChunk (md_totalChunks (it_metadata transfer));
          transfer1 = transfer\<lparr>
            it_receivedChunks := startChunk,
            it_expectedChunkIndex := startChunk,
            it_bytesReceived := bytesForChunkIndex startChunk
                                  (md_chunkSize (it_metadata transfer))
                                  (md_size (it_metadata transfer)),
            it_chunkChecksums := sliceTo (it_chunkChecksums transfer) startChunk \<rparr>;
          step = (if isSupported (c_transferStore this) then
                    (case deleteChunksFrom (c_transferStore this) (it_uploadId transfer1)
                            startChunk of
                       Inl err \<Rightarrow> Inl err
                     | Inr store1 \<Rightarrow> Inr (this\<lparr> c_transferStore := store1 \<rparr>))
                  else
                    let chunks = (case c_inMemoryIncomingChunks this (md_id (it_metadata transfer1)) of
                                    None \<Rightarrow> []
                                  | Some cs \<Rightarrow> cs)
                    in case setLength chunks startChunk of
                         Inl err \<Rightarrow> Inl err
                       | Inr chunks1 \<Rightarrow>
                           Inr (this\<lparr> c_inMemoryIncomingChunks :=
                                  (c_inMemoryIncomingChunks this)
                                    (md_id (it_metadata transfer1) \<mapsto> chunks1) \<rparr>))
      in case step of
           Inl err \<Rightarrow> (Some err, transfer1, this)
         | Inr this1 \<Rightarrow>
             let this2 = upsertPersistedSession now this1 Incoming (it_metadata transfer1)
                           Active startChunk (it_bytesReceived transfer1) None None;
                 this3 = (if isDataChannelReady this2 then
                            this2\<lparr> c_sent := c_sent this2 @
                              [RequestRetransmit (md_id (it_metadata transfer1))
                                 (it_uploadId transfer1) startChunk reason] \<rparr>
                          else this2)
             in (None, transfer1, this3))"

text \<open>
  A \<open>file-offer\<close> comes out of \<open>JSON.parse\<close>. The fields the handler inspects
  (\<open>id\<close>, \<open>chunkSize\<close>, \<open>size\<close>) are untyped values; the fields it only copies
  are taken at their declared types. The \<open>totalChunks\<close> of the offer is overwritten
  and not carried.
\<close>

record OfferedMetadata =
  om_id :: jsval
  om_name :: string
  om_size :: jsval
  om_type :: string
  om_chunkSize :: jsval
  om_uploadId :: "string option"
  om_protocolVersion :: "real option"
  om_fileChecksum :: "string option"
  om_fingerprint :: "string option"

fun truthy :: "jsval \<Rightarrow> bool" where
  "truthy JUndefined = False"
| "truthy JNull = False"
| "truthy (JBool b) = b"
| "truthy (JNum (Fin x)) = (x \<noteq> 0)"
| "truthy (JNum NaN) = False"
| "truthy (JNum PosInf) = True"
| "truthy (JNum NegInf) = True"
| "truthy (JStr s) = (s \<noteq> [])"
| "truthy (JArr xs) = True"
| "truthy (JObj props) = True"

fun typeofNumber :: "jsval \<Rightarrow> bool" where
  "typeofNumber (JNum n) = True"
| "typeofNumber v = False"

text \<open>The comparisons \<open>v <= r\<close> and \<open>v < r\<close> of a value that is a number.\<close>

fun numLe :: "jsval \<Rightarrow> real \<Rightarrow> bool" where
  "numLe (JNum (Fin x)) r = (x \<le> r)"
| "numLe (JNum NegInf) r = True"
| "numLe v r = False"

fun numLt :: "jsval \<Rightarrow> real \<Rightarrow> bool" where
  "numLt (JNum (Fin x)) r = (x < r)"
| "numLt (JNum NegInf) r = True"
| "numLt v r = False"

definition ADAPTIVE_MIN_CHUNK_SIZE :: real where
  "ADAPTIVE_MIN_CHUNK_SIZE = 16 * 1024"

definition invalidFileId :: "OfferedMetadata \<Rightarrow> bool" where
  "invalidFileId metadata \<longleftrightarrow> \<not> truthy (om_id metadata) \<or> \<not> typeofString (om_id metadata)"

definition invalidMetadata :: "OfferedMetadata \<Rightarrow> bool" where
  "invalidMetadata metadata \<longleftrightarrow>
     \<not> typeofNumber (om_chunkSize metadata)
     \<or> numLe (om_chunkSize metadata) 0
     \<or> numLt (om_chunkSize metadata) ADAPTIVE_MIN_CHUNK_SIZE
     \<or> \<not> typeofNumber (om_size metadata)
     \<or> numLt (om_size metadata) 0"

text \<open>
  The accepted offer: the part of the handler after the two checks, for an id, a
  size and a chunk size that passed them, and for the chunk count that
  \<open>calculateTotalChunks\<close> returned for them.
\<close>

definition acceptFileOffer ::
  "real \<Rightarrow> P2PConnection \<Rightarrow> OfferedMetadata \<Rightarrow> string \<Rightarrow> real \<Rightarrow> real \<Rightarrow> int
   \<Rightarrow> P2PConnection" where
  "acceptFileOffer now this metadata fileId fileSize chunkSize totalChunks =
     (let uploadId = (case om_uploadId metadata of
                        None \<Rightarrow> fileId
                      | Some u \<Rightarrow> if u = [] then fileId else u);
          normalizedMetadata =
            \<lparr> md_id = fileId, md_name = om_name metadata, md_size = fileSize,
              md_type = om_type metadata,
              md_totalChunks = totalChunks,
              md_chunkSize = chunkSize,
              md_uploadId = Some uploadId,
              md_protocolVersion =
                Some (case om_protocolVersion metadata of None \<Rightarrow> 1 | Some v \<Rightarrow> v),
              md_fileChecksum = om_fileChecksum metadata,
              md_fingerprint = om_fingerprint metadata \<rparr>;
          this1 = this\<lparr> c_currentReceivingFileId := Some fileId \<rparr>;
          store = c_transferStore this1;
          (resumeFromChunk, bytesReceived, this2) =
            (if isSupported store then
               let sessionKey = createTransferSessionKey Incoming uploadId;
                   existing = getSession store sessionKey;
                   resumable =
                     (case existing of
                        None \<Rightarrow> False
                      | Some e \<Rightarrow>
                          ps_fileSize e = md_size normalizedMetadata
                          \<and> ps_chunkSize e = md_chunkSize normalizedMetadata
                          \<and> ps_totalChunks e = md_totalChunks normalizedMetadata
                          \<and> ps_status e \<noteq> SessionCompleted)
               in if resumable then
                    let contiguous = getContiguousChunkCount store uploadId
                                       (md_totalChunks normalizedMetadata);
                        nextChunkIndex = (case existing of None \<Rightarrow> 0
                                          | Some e \<Rightarrow> ps_nextChunkIndex e);
                        resume = normalizeChunkIndex
                                   (Fin (of_int (min nextChunkIndex contiguous)))
                                   (md_totalChunks normalizedMetadata)
                    in (resume,
                        bytesForChunkIndex resume (md_chunkSize normalizedMetadata)
                          (md_size normalizedMetadata),
                        this1)
                  else (0, 0, this1\<lparr> c_transferStore := deleteUpload store uploadId \<rparr>)
             else (0, 0,
                   this1\<lparr> c_inMemoryIncomingChunks :=
                            (c_inMemoryIncomingChunks this1)(fileId \<mapsto> []) \<rparr>));
          transfer =
            \<lparr> it_metadata = normalizedMetadata,
              it_receivedChunks = resumeFromChunk,
              it_bytesReceived = bytesReceived,
              it_expectedChunkIndex = resumeFromChunk,
              it_ready = False,
              it_uploadId = uploadId,
              it_expectedFileChecksum = md_fileChecksum normalizedMetadata,
              it_chunkChecksums = [],
              it_hasPersistenceError = False \<rparr>;
          this3 = this2\<lparr> c_incomingTransfers :=
                           (c_incomingTransfers this2)(fileId \<mapsto> transfer) \<rparr>;
          this4 = upsertPersistedSession now this3 Incoming normalizedMetadata Active
                    resumeFromChunk bytesReceived None None;
          this5 = sendReceiverReady this4 fileId uploadId resumeFromChunk
      in this5\<lparr> c_fileOffers := c_fileOffers this5 @ [normalizedMetadata] \<rparr>)"

text \<open>
  The handler. An offer whose size or chunk size is \<open>Infinity\<close> or \<open>NaN\<close> passes
  both checks, and so does one whose chunk count is not finite; what the handler
  computes from such numbers is outside the model, and the result is \<open>None\<close>
  then.
\<close>

definition handleIncomingFileOffer ::
  "real \<Rightarrow> P2PConnection \<Rightarrow> OfferedMetadata \<Rightarrow> P2PConnection option" where
  "handleIncomingFileOffer now this metadata =
     (if invalidFileId metadata then
        Some (sendTransferError this [] ''INVALID_FILE_ID'' ''Invalid fileId'')
      else
        case om_id metadata of
          JStr fileId \<Rightarrow>
            if invalidMetadata metadata then
              Some (sendTransferError this fileId ''INVALID_METADATA'' ''Invalid metadata'')
            else
              (case (om_size metadata, om_chunkSize metadata) of
                 (JNum (Fin fileSize), JNum (Fin chunkSize)) \<Rightarrow>
                   (case calculateTotalChunks (Fin fileSize) (Fin chunkSize) of
                      Fin totalChunks \<Rightarrow>
                        Some (acceptFileOffer now this metadata fileId fileSize chunkSize
                                \<lfloor>totalChunks\<rfloor>)
                    | _ \<Rightarrow> None)
               | _ \<Rightarrow> None)
        | _ \<Rightarrow> None)"

text \<open>
  A chunk store is within the key range when it holds no chunk of the upload at an
  index above \<open>MAX_SAFE_INTEGER\<close>, the upper end of every key range the store
  code uses; chunk indices count the chunks of a file.
\<close>

definition noChunkAbove :: "TransferStore \<Rightarrow> string \<Rightarrow> bool" where
  "noChunkAbove store uploadId \<longleftrightarrow>
     (\<forall>i. MAX_SAFE_INTEGER < i \<longrightarrow> ts_chunks store (uploadId, i) = None)"

fun isReceiverReady :: "TransferMessage \<Rightarrow> bool" where
  "isReceiverReady (ReceiverReady fileId uploadId resumeFromChunk) = True"
| "isReceiverReady m = False"

text \<open>Connections, sessions and offers used in the examples.\<close>

definition twoChunkTransfer :: IncomingTransferState where
  "twoChunkTransfer =
     \<lparr> it_metadata = twoChunkFile, it_receivedChunks = 2, it_bytesReceived = 3,
       it_expectedChunkIndex = 2, it_ready = True, it_uploadId = ''u1'',
       it_expectedFileChecksum = None, it_chunkChecksums = [Some ''aa'', Some ''bb''],
       it_hasPersistenceError = False \<rparr>"

definition hugeTransfer :: IncomingTransferState where
  "hugeTransfer =
     twoChunkTransfer\<lparr> it_metadata := twoChunkFile\<lparr> md_totalChunks := 9007199254740992 \<rparr> \<rparr>"

definition existingSession :: PersistedTransferSession where
  "existingSession =
     \<lparr> ps_sessionKey = ''incoming:u1'', ps_direction = Incoming, ps_status = Active,
       ps_uploadId = ''u1'', ps_fileId = ''f1'', ps_fileName = ''two.bin'',
       ps_fileType = ''application/octet-stream'', ps_fileSize = 3, ps_chunkSize = 2,
       ps_totalChunks = 2, ps_nextChunkIndex = 0, ps_bytesTransferred = 0,
       ps_remotePeerId = ''peer'', ps_fingerprint = Some ''fp'', ps_fileChecksum = None,
       ps_createdAt = 100, ps_updatedAt = 100 \<rparr>"

definition receivingConnection :: P2PConnection where
  "receivingConnection =
     \<lparr> c_dataChannelReady = True, c_sent = [],
       c_incomingTransfers = [''f1'' \<mapsto> twoChunkTransfer],
       c_inMemoryIncomingChunks = Map.empty,
       c_currentReceivingFileId = Some ''f1'',
       c_transferStore = storeTwo\<lparr> ts_sessions := [''incoming:u1'' \<mapsto> existingSession] \<rparr>,
       c_remotePeerId = ''peer'', c_fileOffers = [] \<rparr>"

definition closedConnection :: P2PConnection where
  "closedConnection = receivingConnection\<lparr> c_dataChannelReady := False \<rparr>"

definition badIdOffer :: OfferedMetadata where
  "badIdOffer =
     \<lparr> om_id = JStr [], om_name = ''x.bin'', om_size = JNum (Fin 10),
       om_type = ''application/octet-stream'', om_chunkSize = JNum (Fin 0),
       om_uploadId = None, om_protocolVersion = None, om_fileChecksum = None,
       om_fingerprint = None \<rparr>"

definition smallChunkOffer :: OfferedMetadata where
  "smallChunkOffer =
     \<lparr> om_id = JStr ''f2'', om_name = ''x.bin'', om_size = JNum (Fin 10),
       om_type = ''application/octet-stream'', om_chunkSize = JNum (Fin 1024),
       om_uploadId = None, om_protocolVersion = None, om_fileChecksum = None,
       om_fingerprint = None \<rparr>"

definition goodOffer :: OfferedMetadata where
  "goodOffer =
     \<lparr> om_id = JStr ''f2'', om_name = ''x.bin'', om_size = JNum (Fin 40000),
       om_type = ''application/octet-stream'', om_chunkSize = JNum (Fin 16384),
       om_uploadId = None, om_protocolVersion = None, om_fileChecksum = None,
       om_fingerprint = None \<rparr>"

section \<open>Chunk arithmetic\<close>

lemma roundChunkSize_spec: "roundChunkSize v = down4k_min16k v"
  by (simp add: roundChunkSize_def down4k_min16k_def Let_def
      MIN_CHUNK_SIZE_BYTES_def CHUNK_SIZE_STEP_BYTES_def mult.commute)

lemma down4k_min16k_idem: "down4k_min16k (down4k_min16k v) = down4k_min16k v"
proof -
  have a: "\<lfloor>(16384::real) / 4096\<rfloor> = 4" by simp
  have b: "\<lfloor>(4096 * of_int k) / (4096::real)\<rfloor> = k" for k :: int by simp
  show ?thesis
  proof (cases "(16384::real) \<le> 4096 * of_int \<lfloor>v / 4096\<rfloor>")
    case True
    then show ?thesis
      unfolding down4k_min16k_def using b by (simp add: max_def)
  next
    case False
    then show ?thesis
      unfolding down4k_min16k_def using a by (simp add: max_def)
  qed
qed

lemma down4k_min16k_floor_limit:
  "down4k_min16k (max 16384 v) = down4k_min16k v"
proof (cases "16384 \<le> v")
  case True
  then show ?thesis by (simp add: max_def)
next
  case False
  then have "v / 4096 < 4" by simp
  then have "\<lfloor>v / 4096\<rfloor> < 4" by (simp add: floor_less_iff)
  then have "4096 * (of_int \<lfloor>v / 4096\<rfloor> :: real) \<le> 16384" by simp
  moreover have "\<lfloor>(16384::real) / 4096\<rfloor> = 4" by simp
  ultimately show ?thesis
    using False unfolding down4k_min16k_def by (simp add: max_def)
qed

lemma chooseChunkSizeByRtt_spec:
  "chooseChunkSizeByRtt base rtt = rtt_tier_spec base rtt"
  by (simp add: chooseChunkSizeByRtt_def rtt_tier_spec_def roundChunkSize_spec
      RTT_FAST_MS_def RTT_MEDIUM_MS_def RTT_SLOW_MS_def MIN_CHUNK_SIZE_BYTES_def
      split: option.splits)

lemma rtt_tier_spec_idem: "down4k_min16k (rtt_tier_spec base rtt) = rtt_tier_spec base rtt"
  by (simp add: rtt_tier_spec_def down4k_min16k_idem)

lemma clamp_spec:
  "clampChunkSizeByMaxMessageSize (rtt_tier_spec base rtt) limit =
     (case limit of
        None \<Rightarrow> rtt_tier_spec base rtt
      | Some m \<Rightarrow> if m = 0 then rtt_tier_spec base rtt
                  else min (rtt_tier_spec base rtt) (down4k_min16k (m - 1024)))"
  by (simp add: clampChunkSizeByMaxMessageSize_def roundChunkSize_spec rtt_tier_spec_idem
      MIN_CHUNK_SIZE_BYTES_def MESSAGE_OVERHEAD_BYTES_def down4k_min16k_floor_limit
      Let_def split: option.splits)


section \<open>The chunk-size plan\<close>

text \<open>
  C1 (amended). For every base chunk size, RTT sample and message limit, the plan's
  chunk size is the RTT-tiered size, clamped by the message limit when that limit is
  neither \<open>null\<close> nor \<open>0\<close>: the planner reads a limit of \<open>0\<close> as "no limit", like
  \<open>null\<close>. For every non-null, non-zero limit the chunk size does not exceed the
  limit minus 1024, rounded down to 4 KiB and floored at 16 KiB.
\<close>

theorem buildAdaptiveChunkPlan_chunkSize:
  "plan_chunkSize (buildAdaptiveChunkPlan base limit rtt) =
     (case limit of
        None \<Rightarrow> rtt_tier_spec base rtt
      | Some m \<Rightarrow> if m = 0 then rtt_tier_spec base rtt
                  else min (rtt_tier_spec base rtt) (down4k_min16k (m - 1024)))
   \<and> (\<forall>m. limit = Some m \<and> m \<noteq> 0 \<longrightarrow>
          plan_chunkSize (buildAdaptiveChunkPlan base limit rtt) \<le> down4k_min16k (m - 1024))"
proof -
  have eq: "plan_chunkSize (buildAdaptiveChunkPlan base limit rtt) =
      clampChunkSizeByMaxMessageSize (rtt_tier_spec base rtt) limit"
    by (simp add: buildAdaptiveChunkPlan_def Let_def chooseChunkSizeByRtt_spec)
  show ?thesis
    unfolding eq clamp_spec by (auto split: option.splits)
qed

theorem buildAdaptiveChunkPlan_chunkSize_witness:
  "plan_chunkSize (buildAdaptiveChunkPlan 65536 (Some 18432) (Some 20)) = 16384
   \<and> Some (18432::real) = Some 18432 \<and> (18432::real) \<noteq> 0
   \<and> plan_chunkSize (buildAdaptiveChunkPlan 65536 (Some 18432) (Some 20))
       \<le> down4k_min16k (18432 - 1024)"
  using buildAdaptiveChunkPlan_chunkSize [of 65536 "Some 18432" "Some 20"]
  by (simp add: rtt_tier_spec_def down4k_min16k_def)

text \<open>
  C1 as stated fails for the non-null limit \<open>0\<close>: with base 64 KiB and no RTT sample
  the plan keeps 64 KiB, above the 16 KiB that the stated bound allows.
\<close>

theorem buildAdaptiveChunkPlan_zero_limit_counterexample:
  "plan_chunkSize (buildAdaptiveChunkPlan 65536 (Some 0) None) = 65536
   \<and> down4k_min16k (0 - 1024) = 16384
   \<and> \<not> plan_chunkSize (buildAdaptiveChunkPlan 65536 (Some 0) None)
         \<le> down4k_min16k (0 - 1024)"
proof -
  have a: "\<lfloor>(65536::real) / 4096\<rfloor> = 16" by simp
  have b: "\<lfloor>- ((1024::real) / 4096)\<rfloor> = -1" by (simp add: floor_eq_iff)
  have c: "plan_chunkSize (buildAdaptiveChunkPlan 65536 (Some 0) None) = 65536"
    using a by (simp add: buildAdaptiveChunkPlan_def chooseChunkSizeByRtt_def
        clampChunkSizeByMaxMessageSize_def roundChunkSize_def Let_def
        MIN_CHUNK_SIZE_BYTES_def CHUNK_SIZE_STEP_BYTES_def)
  have d: "down4k_min16k (0 - 1024) = 16384"
    using b by (simp add: down4k_min16k_def)
  show ?thesis unfolding c d by simp
qed

section \<open>Chunk counts and chunk indices\<close>

text \<open>
  A number between \<open>2 ^ k\<close> and \<open>2 ^ (k + 1)\<close> that is a multiple of
  \<open>2 ^ (k - 52)\<close> is a double, and rounding leaves it as it is.
\<close>

lemma roundHalfEven_int: "roundHalfEven (of_int n) = n"
  by (simp add: roundHalfEven_def)

lemma quantum_binade:
  fixes k :: nat
  assumes "2 ^ k \<le> a" "a < 2 ^ (k + 1)" "k \<le> 52"
  shows "quantum a = 1 / 2 ^ (52 - k)"
proof -
  have a0: "0 < a"
  proof -
    have "(0::real) < 2 ^ k" by simp
    with assms(1) show ?thesis by linarith
  qed
  have fl: "\<lfloor>log 2 a\<rfloor> = int k"
  proof -
    have "2 powr (of_int (int k)) \<le> a" using assms(1) by (simp add: powr_realpow)
    moreover have "a < 2 powr (of_int (int k + 1))"
    proof -
      have "(2::real) powr (of_int (int k + 1)) = 2 powr (real (k + 1))"
        by (simp add: add.commute)
      also have "\<dots> = 2 ^ (k + 1)" by (rule powr_realpow) simp
      finally show ?thesis using assms(2) by simp
    qed
    ultimately show ?thesis
      using a0 by (subst floor_log_eq_powr_iff) auto
  qed
  have big: "\<not> a < 1 / 2 ^ 1022"
  proof -
    have "(1::real) / 2 ^ 1022 \<le> 1" by (simp del: power_numeral add: divide_le_eq_1)
    also have "\<dots> \<le> 2 ^ k" by simp
    finally show ?thesis using assms(1) by linarith
  qed
  have pw: "2 powr (of_int (int k) - 52) = 1 / (2::real) ^ (52 - k)"
  proof -
    have e: "of_int (int k) - (52::real) = - real (52 - k)" using assms(3) by simp
    have "2 powr (- real (52 - k)) = 1 / 2 powr (real (52 - k))"
      by (simp only: powr_minus divide_inverse mult_1)
    also have "\<dots> = 1 / (2::real) ^ (52 - k)"
      by (simp only: powr_realpow zero_less_numeral)
    finally show ?thesis by (simp only: e)
  qed
  show ?thesis
    unfolding quantum_def by (simp only: big fl pw if_False)
qed

lemma roundToDouble_exact:
  fixes k :: nat
  assumes "2 ^ k \<le> x" "x < 2 ^ (k + 1)" "k \<le> 52" "x * 2 ^ (52 - k) = of_int n"
  shows "roundToDouble x = Fin x"
proof -
  have x0: "0 < x"
  proof -
    have "(0::real) < 2 ^ k" by simp
    with assms(1) show ?thesis by linarith
  qed
  then have ax: "\<bar>x\<bar> = x" by simp
  have q: "quantum \<bar>x\<bar> = 1 / 2 ^ (52 - k)"
    unfolding ax using assms(1-3) by (rule quantum_binade)
  have "x / (1 / 2 ^ (52 - k)) = of_int n"
    using assms(4) by simp
  then have m: "roundHalfEven (x / (1 / 2 ^ (52 - k))) = n"
    by (simp only: roundHalfEven_int)
  have r: "of_int n * (1 / 2 ^ (52 - k)) = x"
    using assms(4) by (simp add: field_simps)
  have lt: "x < DOUBLE_OVERFLOW"
  proof -
    have "x < 2 ^ (k + 1)" by fact
    also have "\<dots> \<le> (2::real) ^ 1024" using assms(3) by (intro power_increasing) auto
    finally show ?thesis by (simp only: DOUBLE_OVERFLOW_def)
  qed
  have pos: "0 < DOUBLE_OVERFLOW" by (simp only: DOUBLE_OVERFLOW_def zero_less_power zero_less_numeral)
  have a: "\<not> DOUBLE_OVERFLOW \<le> x" using lt by simp
  have b: "\<not> x \<le> - DOUBLE_OVERFLOW" using x0 pos by linarith
  have nz: "x \<noteq> 0" using x0 by simp
  show ?thesis
    unfolding roundToDouble_def Let_def q m r using a b nz by (simp only: if_False)
qed








text \<open>
  C6. For every value \<open>v\<close> (finite or not, integral or not) and every chunk count
  \<open>n\<close>, \<open>normalizeChunkIndex v n\<close> is 0 when \<open>v\<close> is not finite or at most 0, is
  \<open>n\<close> when \<open>v\<close> is at least \<open>n\<close>, and is the floor of \<open>v\<close> otherwise; the result
  lies between 0 and \<open>n\<close>. A chunk count is not negative.
\<close>

theorem normalizeChunkIndex_range:
  assumes "0 \<le> n"
  shows "0 \<le> normalizeChunkIndex v n \<and> normalizeChunkIndex v n \<le> n
   \<and> (\<not> isFinite v \<longrightarrow> normalizeChunkIndex v n = 0)
   \<and> (v = Fin x \<and> x \<le> 0 \<longrightarrow> normalizeChunkIndex v n = 0)
   \<and> (v = Fin x \<and> of_int n \<le> x \<longrightarrow> normalizeChunkIndex v n = n)
   \<and> (v = Fin x \<and> 0 < x \<and> x < of_int n \<longrightarrow> normalizeChunkIndex v n = \<lfloor>x\<rfloor>)"
proof (cases v)
  case (Fin y)
  have "\<lfloor>y\<rfloor> \<le> n" if "y < of_int n"
    using that by (simp add: floor_le_iff)
  moreover have "0 \<le> \<lfloor>y\<rfloor>" if "0 < y"
    using that by simp
  ultimately show ?thesis
    using Fin assms by auto
qed (use assms in auto)

theorem normalizeChunkIndex_range_witness:
  "(0::int) \<le> 100
   \<and> normalizeChunkIndex NaN 100 = 0
   \<and> normalizeChunkIndex (Fin (-1)) 100 = 0
   \<and> normalizeChunkIndex (Fin 150) 100 = 100
   \<and> normalizeChunkIndex (Fin (89 / 10)) 100 = 8
   \<and> 0 \<le> normalizeChunkIndex (Fin (89 / 10)) 100
   \<and> normalizeChunkIndex (Fin (89 / 10)) 100 \<le> 100"
proof -
  have n: "(0::int) \<le> 100" by simp
  have f: "\<lfloor>(89::real) / 10\<rfloor> = 8" by (simp add: floor_eq_iff)
  show ?thesis
    using normalizeChunkIndex_range [OF n, of NaN 0]
      normalizeChunkIndex_range [OF n, of "Fin (-1)" "-1"]
      normalizeChunkIndex_range [OF n, of "Fin 150" 150]
      normalizeChunkIndex_range [OF n, of "Fin (89 / 10)" "89 / 10"] f
    by simp
qed

section \<open>The send queue\<close>

lemma countStatuses_sending:
  "sum_sending (countStatuses xs acc) =
     sum_sending acc + length (filter (\<lambda>item. qi_status item = Sending) xs)"
  by (induction xs arbitrary: acc) (auto split: OutgoingQueueItemStatus.splits)

lemma summary_sending:
  "sum_sending (getSendQueueSummary s) =
     length (filter (\<lambda>item. qi_status item = Sending) (sq_items s))"
  by (simp add: getSendQueueSummary_def countStatuses_sending)

lemma filter_map_le:
  assumes "\<And>x. P (f x) \<Longrightarrow> P x"
  shows "length (filter P (map f xs)) \<le> length (filter P xs)"
  using assms by (induction xs) (auto simp: le_SucI)

lemma filter_conj_le:
  "length (filter (\<lambda>x. Q x \<and> P x) xs) \<le> length (filter P xs)"
  by (induction xs) (auto simp: le_SucI)

lemma distinct_id_count:
  "distinct (map qi_id xs) \<Longrightarrow> length (filter (\<lambda>item. qi_id item = i) xs) \<le> Suc 0"
proof (induction xs)
  case Nil
  then show ?case by simp
next
  case (Cons x xs)
  show ?case
  proof (cases "qi_id x = i")
    case True
    with Cons.prems have "\<forall>y \<in> set xs. qi_id y \<noteq> i" by (force simp: image_iff)
    then have "filter (\<lambda>item. qi_id item = i) xs = []" by (simp add: filter_empty_conv)
    with True show ?thesis by simp
  next
    case False
    with Cons show ?thesis by simp
  qed
qed

lemma markSending_ids: "map qi_id (map (markSendingItem now i) xs) = map qi_id xs"
  by (simp add: markSendingItem_def comp_def)

lemma markSending_filter:
  "filter (\<lambda>item. qi_status item = Sending) (map (markSendingItem now i) xs) =
   map (markSendingItem now i) (filter (\<lambda>item. qi_id item = i) xs)"
  by (induction xs) (auto simp: markSendingItem_def)

lemma inv_step:
  assumes "queueInv s" "freshEnqueue s a"
  shows "queueInv (sendQueueReducer now s a)"
proof (cases a)
  case (Enqueue its)
  then show ?thesis using assms
    by (auto simp: queueInv_def withRevision_def list_all_iff filter_empty_conv)
next
  case (MarkSending i)
  then show ?thesis using assms
    by (auto simp: queueInv_def withRevision_def Let_def markSending_ids markSending_filter
        distinct_id_count simp del: map_map)
next
  case (UpdateProgress i a b)
  have "length (filter (\<lambda>item. qi_status item = Sending) (map (updateProgressItem i a b) xs))
      \<le> length (filter (\<lambda>item. qi_status item = Sending) xs)" for xs
    by (rule filter_map_le) (auto simp: updateProgressItem_def Let_def split: if_splits)
  moreover have "map qi_id (map (updateProgressItem i a b) xs) = map qi_id xs" for xs
    by (simp add: updateProgressItem_def comp_def Let_def)
  ultimately show ?thesis using assms UpdateProgress
    by (auto simp: queueInv_def withRevision_def Let_def simp del: map_map intro: order_trans)
next
  case (MarkCompleted i)
  have "length (filter (\<lambda>item. qi_status item = Sending) (map (markCompletedItem now i) xs))
      \<le> length (filter (\<lambda>item. qi_status item = Sending) xs)" for xs
    by (rule filter_map_le) (auto simp: markCompletedItem_def split: if_splits)
  moreover have "map qi_id (map (markCompletedItem now i) xs) = map qi_id xs" for xs
    by (simp add: markCompletedItem_def comp_def)
  ultimately show ?thesis using assms MarkCompleted
    by (auto simp: queueInv_def withRevision_def Let_def simp del: map_map intro: order_trans)
next
  case (MarkFailed i e)
  have "length (filter (\<lambda>item. qi_status item = Sending) (map (markFailedItem now i e) xs))
      \<le> length (filter (\<lambda>item. qi_status item = Sending) xs)" for xs
    by (rule filter_map_le) (auto simp: markFailedItem_def split: if_splits)
  moreover have "map qi_id (map (markFailedItem now i e) xs) = map qi_id xs" for xs
    by (simp add: markFailedItem_def comp_def)
  ultimately show ?thesis using assms MarkFailed
    by (auto simp: queueInv_def withRevision_def Let_def simp del: map_map intro: order_trans)
next
  case (Retry i)
  have "length (filter (\<lambda>item. qi_status item = Sending) (map (retryItem i) xs))
      \<le> length (filter (\<lambda>item. qi_status item = Sending) xs)" for xs
    by (rule filter_map_le) (auto simp: retryItem_def split: if_splits)
  moreover have "map qi_id (map (retryItem i) xs) = map qi_id xs" for xs
    by (simp add: retryItem_def comp_def)
  ultimately show ?thesis using assms Retry
    by (auto simp: queueInv_def withRevision_def Let_def simp del: map_map intro: order_trans)
next
  case (Remove i)
  have "length (filter (\<lambda>x. Q x \<and> P x) xs) \<le> n" if "length (filter P xs) \<le> n"
    for P Q n and xs :: "OutgoingQueueItem list"
    using that filter_conj_le [of Q P xs] by simp
  then show ?thesis using assms Remove
    by (auto simp: queueInv_def withRevision_def Let_def distinct_map_filter
        split: option.splits intro: order_trans)
next
  case ClearCompleted
  have "length (filter (\<lambda>x. Q x \<and> P x) xs) \<le> n" if "length (filter P xs) \<le> n"
    for P Q n and xs :: "OutgoingQueueItem list"
    using that filter_conj_le [of Q P xs] by simp
  then show ?thesis using assms ClearCompleted
    by (auto simp: queueInv_def withRevision_def Let_def distinct_map_filter
        intro: order_trans)
next
  case Reset
  then show ?thesis using assms by (auto simp: queueInv_def)
qed

lemma reachableFresh_inv: "reachableFresh s \<Longrightarrow> queueInv s"
proof (induction rule: reachableFresh.induct)
  case fresh_init
  show ?case by (simp add: queueInv_def createInitialSendQueueState_def)
next
  case (fresh_step s a now)
  then show ?case by (simp add: inv_step)
qed


lemma twoItems:
  "createOutgoingQueueItems now [i1, i2] twoFiles =
     [\<lparr> qi_id = i1, qi_file = twoFiles ! 0, qi_status = Queued, qi_sentBytes = 0,
        qi_totalBytes = 128, qi_progressPercent = 0, qi_attempts = 0,
        qi_errorMessage = None, qi_addedAt = now, qi_startedAt = None,
        qi_finishedAt = None \<rparr>,
      \<lparr> qi_id = i2, qi_file = twoFiles ! 1, qi_status = Queued, qi_sentBytes = 0,
        qi_totalBytes = 256, qi_progressPercent = 0, qi_attempts = 0,
        qi_errorMessage = None, qi_addedAt = now + 1, qi_startedAt = None,
        qi_finishedAt = None \<rparr>]"
  by (simp add: createOutgoingQueueItems_def twoFiles_def)

lemma queueExample_items:
  "map qi_id (sq_items queueExample) = [''q1'', ''q2'']
   \<and> map qi_status (sq_items queueExample) = [Sending, Queued]"
  by (simp add: queueExample_def twoItems createInitialSendQueueState_def
      withRevision_def markSendingItem_def Let_def)

lemma queueExample_fresh: "reachableFresh queueExample"
  unfolding queueExample_def
  apply (rule fresh_step)
   apply (rule fresh_step)
    apply (rule fresh_init)
   apply (simp add: twoItems createInitialSendQueueState_def)
  apply simp
  done

text \<open>
  The items \<open>createOutgoingQueueItems\<close> builds are queued and carry the generated
  ids in order. The reducer is fed with fresh work by them when the generated ids
  differ from each other and from the ids in a queue of distinct ids; nothing in
  the code makes the generated ids so.
\<close>

lemma createOutgoingQueueItems_ids:
  "map qi_id (createOutgoingQueueItems now ids files) = take (length files) ids"
proof -
  have "map qi_id (createOutgoingQueueItems now ids files)
      = map (fst \<circ> snd) (enumerate 0 (zip ids files))"
    by (simp add: createOutgoingQueueItems_def comp_def case_prod_beta)
  also have "\<dots> = map fst (zip ids files)"
    by (simp flip: map_map)
  also have "\<dots> = take (length files) ids"
    by (simp add: map_fst_zip_take min_def)
  finally show ?thesis .
qed

lemma createOutgoingQueueItems_fresh:
  assumes "distinct ids" "set ids \<inter> qi_id ` set (sq_items s) = {}"
    and "distinct (map qi_id (sq_items s))"
  shows "freshEnqueue s (Enqueue (createOutgoingQueueItems now ids files))"
proof -
  have st: "list_all (\<lambda>item. qi_status item \<noteq> Sending)
              (createOutgoingQueueItems now ids files)"
    by (simp add: createOutgoingQueueItems_def list_all_iff case_prod_beta)
  have "distinct (take (length files) ids)"
    using assms(1) by (rule distinct_take)
  moreover have "set (take (length files) ids) \<inter> qi_id ` set (sq_items s) = {}"
    using assms(2) set_take_subset [of "length files" ids] by blast
  ultimately have "distinct (map qi_id (sq_items s) @ take (length files) ids)"
    using assms(3) by auto
  then show ?thesis
    using st by (simp add: createOutgoingQueueItems_ids)
qed

text \<open>
  C5 (amended). For every state reachable from \<open>createInitialSendQueueState\<close> by
  reducer actions whose \<open>enqueue\<close> items are not already \<open>sending\<close> and carry ids
  that differ from each other and from the ids in the queue, at most one item has
  status \<open>sending\<close>. In every state, \<open>mark-sending\<close> of an id that is in the queue
  turns every item with another id that was \<open>sending\<close> back to \<open>queued\<close>.
\<close>

theorem sendQueue_single_sending:
  "(reachableFresh s \<longrightarrow> sum_sending (getSendQueueSummary s) \<le> 1)
   \<and> ((\<exists>item \<in> set (sq_items s). qi_id item = itemId) \<longrightarrow>
        (\<forall>k < length (sq_items s).
           qi_id (sq_items s ! k) \<noteq> itemId \<and> qi_status (sq_items s ! k) = Sending \<longrightarrow>
           qi_id (sq_items (sendQueueReducer now s (MarkSending itemId)) ! k)
             = qi_id (sq_items s ! k)
           \<and> qi_status (sq_items (sendQueueReducer now s (MarkSending itemId)) ! k) = Queued))"
proof -
  have inv: "sum_sending (getSendQueueSummary s) \<le> 1" if "reachableFresh s"
  proof -
    from that have "queueInv s" by (rule reachableFresh_inv)
    then show ?thesis by (simp add: summary_sending queueInv_def)
  qed
  have demote: "qi_id (sq_items (sendQueueReducer now s (MarkSending itemId)) ! k)
             = qi_id (sq_items s ! k)
           \<and> qi_status (sq_items (sendQueueReducer now s (MarkSending itemId)) ! k) = Queued"
    if found: "\<exists>item \<in> set (sq_items s). qi_id item = itemId"
      and k: "k < length (sq_items s)"
      and other: "qi_id (sq_items s ! k) \<noteq> itemId" "qi_status (sq_items s ! k) = Sending"
    for k
  proof -
    have "sq_items (sendQueueReducer now s (MarkSending itemId)) =
        map (markSendingItem now itemId) (sq_items s)"
      using found by (simp add: withRevision_def Let_def)
    then show ?thesis using k other by (simp add: markSendingItem_def)
  qed
  show ?thesis using inv demote by blast
qed


theorem sendQueue_single_sending_witness:
  "reachableFresh queueExample
   \<and> sum_sending (getSendQueueSummary queueExample) \<le> 1
   \<and> (\<exists>item \<in> set (sq_items queueExample). qi_id item = ''q2'')
   \<and> 0 < length (sq_items queueExample)
   \<and> qi_id (sq_items queueExample ! 0) \<noteq> ''q2''
   \<and> qi_status (sq_items queueExample ! 0) = Sending
   \<and> qi_status (sq_items (sendQueueReducer 2 queueExample (MarkSending ''q2'')) ! 0) = Queued"
proof -
  have ids: "map qi_id (sq_items queueExample) = [''q1'', ''q2'']"
    and sts: "map qi_status (sq_items queueExample) = [Sending, Queued]"
    using queueExample_items by simp_all
  obtain a b where ab: "sq_items queueExample = [a, b]"
    using ids by (cases "sq_items queueExample") auto
  have f: "qi_id a = ''q1''" "qi_id b = ''q2''" "qi_status a = Sending" "qi_status b = Queued"
    using ids sts ab by simp_all
  show ?thesis
    using sendQueue_single_sending [of queueExample "''q2''" 2] queueExample_fresh ab f
    by simp
qed

text \<open>
  C5 as stated fails, because the reducer appends the items of an \<open>enqueue\<close>
  action as they are: enqueueing two items that are already \<open>sending\<close> gives a
  reachable state with two sending items, and so does \<open>mark-sending\<close> after
  enqueueing two queued items that share an id.
\<close>

theorem sendQueue_two_sending_counterexample:
  "reachable
     (sendQueueReducer 0 createInitialSendQueueState
        (Enqueue (map (\<lambda>item. item\<lparr>qi_status := Sending\<rparr>)
                    (createOutgoingQueueItems 0 [''q1'', ''q2''] twoFiles))))
   \<and> sum_sending (getSendQueueSummary
        (sendQueueReducer 0 createInitialSendQueueState
           (Enqueue (map (\<lambda>item. item\<lparr>qi_status := Sending\<rparr>)
                       (createOutgoingQueueItems 0 [''q1'', ''q2''] twoFiles))))) = 2
   \<and> reachable
     (sendQueueReducer 1
        (sendQueueReducer 0 createInitialSendQueueState
           (Enqueue (createOutgoingQueueItems 0 [''q1'', ''q1''] twoFiles)))
        (MarkSending ''q1''))
   \<and> sum_sending (getSendQueueSummary
        (sendQueueReducer 1
           (sendQueueReducer 0 createInitialSendQueueState
              (Enqueue (createOutgoingQueueItems 0 [''q1'', ''q1''] twoFiles)))
           (MarkSending ''q1''))) = 2"
proof -
  have r1: "reachable (sendQueueReducer now1 (sendQueueReducer now0 createInitialSendQueueState a0) a1)"
    for now0 now1 a0 a1
    by (intro reachable_step reachable_init)
  have r0: "reachable (sendQueueReducer now0 createInitialSendQueueState a0)" for now0 a0
    by (intro reachable_step reachable_init)
  have c0: "sum_sending (getSendQueueSummary
        (sendQueueReducer 0 createInitialSendQueueState
           (Enqueue (map (\<lambda>item. item\<lparr>qi_status := Sending\<rparr>)
                       (createOutgoingQueueItems 0 [''q1'', ''q2''] twoFiles))))) = 2"
    by (simp add: twoItems createInitialSendQueueState_def withRevision_def
        getSendQueueSummary_def Let_def)
  have c1: "sum_sending (getSendQueueSummary
        (sendQueueReducer 1
           (sendQueueReducer 0 createInitialSendQueueState
              (Enqueue (createOutgoingQueueItems 0 [''q1'', ''q1''] twoFiles)))
           (MarkSending ''q1''))) = 2"
    by (simp add: twoItems createInitialSendQueueState_def withRevision_def
        getSendQueueSummary_def markSendingItem_def Let_def)
  show ?thesis by (intro conjI r0 r1 c0 c1)
qed

text \<open>
  C7. A \<open>remove\<close> of an id that no item carries returns the state unchanged, with
  the same revision, and so does \<open>clear-completed\<close> on a state without completed
  items.
\<close>

theorem sendQueueReducer_noop:
  "(itemId \<notin> qi_id ` set (sq_items s) \<longrightarrow>
      sendQueueReducer now s (Remove itemId) = s
      \<and> sq_revision (sendQueueReducer now s (Remove itemId)) = sq_revision s)
   \<and> (list_all (\<lambda>item. qi_status item \<noteq> Completed) (sq_items s) \<longrightarrow>
      sendQueueReducer now s ClearCompleted = s
      \<and> sq_revision (sendQueueReducer now s ClearCompleted) = sq_revision s)"
proof -
  have a: "sendQueueReducer now s (Remove itemId) = s"
    if "itemId \<notin> qi_id ` set (sq_items s)"
  proof -
    from that have "find (\<lambda>item. qi_id item = itemId) (sq_items s) = None"
      by (auto simp: find_None_iff)
    then show ?thesis by simp
  qed
  have b: "sendQueueReducer now s ClearCompleted = s"
    if "list_all (\<lambda>item. qi_status item \<noteq> Completed) (sq_items s)"
  proof -
    from that have "filter (\<lambda>item. qi_status item \<noteq> Completed) (sq_items s) = sq_items s"
      by (simp add: list_all_iff)
    then show ?thesis by simp
  qed
  show ?thesis using a b by simp
qed


theorem sendQueueReducer_noop_witness:
  "''zz'' \<notin> qi_id ` set (sq_items queueExample)
   \<and> sendQueueReducer 5 queueExample (Remove ''zz'') = queueExample
   \<and> list_all (\<lambda>item. qi_status item \<noteq> Completed) (sq_items queueExample)
   \<and> sendQueueReducer 5 queueExample ClearCompleted = queueExample"
proof -
  have ids: "map qi_id (sq_items queueExample) = [''q1'', ''q2'']"
    and sts: "map qi_status (sq_items queueExample) = [Sending, Queued]"
    using queueExample_items by simp_all
  have a: "''zz'' \<notin> qi_id ` set (sq_items queueExample)"
    using ids by (simp flip: set_map)
  have "list_all (\<lambda>s. s \<noteq> Completed) (map qi_status (sq_items queueExample))"
    unfolding sts by simp
  then have b: "list_all (\<lambda>item. qi_status item \<noteq> Completed) (sq_items queueExample)"
    by (simp add: list_all_iff)
  show ?thesis
    using sendQueueReducer_noop [of "''zz''" queueExample 5] a b by simp
qed

section \<open>Structured events\<close>

text \<open>
  C8 (amended). Parsing the envelope that \<open>createStructuredEventEnvelope\<close> builds
  from an event name, a payload record and a finite timestamp returns that envelope,
  of kind \<open>peershare.event\<close> and version 1. Parsing a record with a string
  \<open>event\<close> and a finite numeric \<open>timestamp\<close> that does not have the standard shape
  (kind \<open>peershare.event\<close>, version 1 and a record \<open>payload\<close>) returns an envelope
  whose payload holds exactly the other fields of the record. Parsing such a record
  that does have the standard shape returns the standard envelope, whose payload is
  the \<open>payload\<close> field, whatever other fields the record carries.
\<close>

theorem parse_roundtrip_and_legacy:
  "parseStructuredEventEnvelope
      (envelopeValue (createStructuredEventEnvelope event payload (Fin t)))
     = Some (createStructuredEventEnvelope event payload (Fin t))
   \<and> env_kind (createStructuredEventEnvelope event payload (Fin t)) = ''peershare.event''
   \<and> env_version (createStructuredEventEnvelope event payload (Fin t)) = 1
   \<and> (getProp raw ''event'' = JStr ev \<and> getProp raw ''timestamp'' = JNum (Fin ts)
        \<and> \<not> standardShape raw \<longrightarrow>
        parseStructuredEventEnvelope (JObj raw)
          = Some (createStructuredEventEnvelope ev
                   (filter (\<lambda>(name, v). name \<noteq> ''event'' \<and> name \<noteq> ''timestamp'') raw)
                   (Fin ts)))
   \<and> (getProp raw ''event'' = JStr ev \<and> getProp raw ''timestamp'' = JNum (Fin ts)
        \<and> standardShape raw \<and> getProp raw ''payload'' = JObj p \<longrightarrow>
        parseStructuredEventEnvelope (JObj raw)
          = Some (createStructuredEventEnvelope ev p (Fin ts)))"
proof -
  have legacy: "parseFields raw
          = Some (createStructuredEventEnvelope ev
                   (filter (\<lambda>(name, v). name \<noteq> ''event'' \<and> name \<noteq> ''timestamp'') raw)
                   (Fin ts))"
    if "getProp raw ''event'' = JStr ev" "getProp raw ''timestamp'' = JNum (Fin ts)"
      "\<not> standardShape raw"
    using that
    by (auto simp: parseFields_def standardShape_def STRUCTURED_EVENT_KIND_def
        STRUCTURED_EVENT_VERSION_def Let_def)
  have standard: "parseFields raw = Some (createStructuredEventEnvelope ev p (Fin ts))"
    if "getProp raw ''event'' = JStr ev" "getProp raw ''timestamp'' = JNum (Fin ts)"
      "standardShape raw" "getProp raw ''payload'' = JObj p"
    using that
    by (simp add: parseFields_def standardShape_def STRUCTURED_EVENT_KIND_def
        STRUCTURED_EVENT_VERSION_def createStructuredEventEnvelope_def Let_def)
  have round: "parseStructuredEventEnvelope
      (envelopeValue (createStructuredEventEnvelope event payload (Fin t)))
     = Some (createStructuredEventEnvelope event payload (Fin t))"
    by (simp add: parseFields_def createStructuredEventEnvelope_def envelopeValue_def
        getProp_def Let_def)
  have kind: "env_kind (createStructuredEventEnvelope event payload (Fin t)) = ''peershare.event''"
    "env_version (createStructuredEventEnvelope event payload (Fin t)) = 1"
    by (simp_all add: createStructuredEventEnvelope_def STRUCTURED_EVENT_KIND_def
        STRUCTURED_EVENT_VERSION_def)
  show ?thesis
    using legacy standard round kind by simp
qed

theorem parse_roundtrip_and_legacy_witness:
  "getProp [(''event'', JStr ''transfer_start''), (''fileId'', JStr ''f1''),
            (''timestamp'', JNum (Fin 1700))] ''event'' = JStr ''transfer_start''
   \<and> getProp [(''event'', JStr ''transfer_start''), (''fileId'', JStr ''f1''),
            (''timestamp'', JNum (Fin 1700))] ''timestamp'' = JNum (Fin 1700)
   \<and> \<not> standardShape [(''event'', JStr ''transfer_start''), (''fileId'', JStr ''f1''),
            (''timestamp'', JNum (Fin 1700))]
   \<and> parseStructuredEventEnvelope
        (JObj [(''event'', JStr ''transfer_start''), (''fileId'', JStr ''f1''),
               (''timestamp'', JNum (Fin 1700))])
      = Some (createStructuredEventEnvelope ''transfer_start'' [(''fileId'', JStr ''f1'')]
                (Fin 1700))
   \<and> getProp standardWithExtra ''event'' = JStr ''transfer_done''
   \<and> getProp standardWithExtra ''timestamp'' = JNum (Fin 1800)
   \<and> standardShape standardWithExtra
   \<and> getProp standardWithExtra ''payload'' = JObj [(''fileId'', JStr ''f1'')]
   \<and> parseStructuredEventEnvelope (JObj standardWithExtra)
      = Some (createStructuredEventEnvelope ''transfer_done'' [(''fileId'', JStr ''f1'')]
                (Fin 1800))"
proof -
  have a: "getProp standardWithExtra ''event'' = JStr ''transfer_done''"
    "getProp standardWithExtra ''timestamp'' = JNum (Fin 1800)"
    "standardShape standardWithExtra"
    "getProp standardWithExtra ''payload'' = JObj [(''fileId'', JStr ''f1'')]"
    by (simp_all add: standardWithExtra_def getProp_def standardShape_def)
  show ?thesis
    using parse_roundtrip_and_legacy [where event = "''e''" and payload = "[]" and t = 0
        and raw = "[(''event'', JStr ''transfer_start''), (''fileId'', JStr ''f1''),
          (''timestamp'', JNum (Fin 1700))]" and ev = "''transfer_start''" and ts = 1700
        and p = "[]"]
      parse_roundtrip_and_legacy [where event = "''e''" and payload = "[]" and t = 0
        and raw = standardWithExtra and ev = "''transfer_done''" and ts = 1800
        and p = "[(''fileId'', JStr ''f1'')]"] a
    by (simp add: getProp_def standardShape_def)
qed

text \<open>
  C8 as stated fails for sibling fields that make up the standard shape: the
  parser's first test wins, the payload is the \<open>payload\<close> field and the other
  siblings are dropped.
\<close>

theorem parse_standard_shape_counterexample:
  "typeofString (getProp [(''event'', JStr ''e''), (''timestamp'', JNum (Fin 5)),
        (''kind'', JStr ''peershare.event''), (''version'', JNum (Fin 1)),
        (''payload'', JObj []), (''extra'', JBool True)] ''event'')
   \<and> finiteNumber (getProp [(''event'', JStr ''e''), (''timestamp'', JNum (Fin 5)),
        (''kind'', JStr ''peershare.event''), (''version'', JNum (Fin 1)),
        (''payload'', JObj []), (''extra'', JBool True)] ''timestamp'')
   \<and> parseStructuredEventEnvelope
       (JObj [(''event'', JStr ''e''), (''timestamp'', JNum (Fin 5)),
              (''kind'', JStr ''peershare.event''), (''version'', JNum (Fin 1)),
              (''payload'', JObj []), (''extra'', JBool True)])
     = Some (createStructuredEventEnvelope ''e'' [] (Fin 5))
   \<and> env_payload (createStructuredEventEnvelope ''e'' [] (Fin 5))
     \<noteq> [(''kind'', JStr ''peershare.event''), (''version'', JNum (Fin 1)),
        (''payload'', JObj []), (''extra'', JBool True)]"
  by (simp add: parseFields_def createStructuredEventEnvelope_def
      getProp_def STRUCTURED_EVENT_KIND_def STRUCTURED_EVENT_VERSION_def Let_def)

section \<open>Finalizing a received file\<close>

lemma upto_head: "i \<le> n - 1 \<Longrightarrow> [i .. n - 1] = i # [i + 1 .. n - 1]" for i n :: int
  by (simp add: upto_rec1)

lemma finalizeLoop_all:
  "(\<forall>j \<in> set [i .. n - 1]. getChunk store u j \<noteq> None) \<Longrightarrow>
   finalizeLoop store u n i sink acc =
     Inr (acc @ map (\<lambda>j. case getChunk store u j of None \<Rightarrow> [] | Some c \<Rightarrow> pc_checksum c) [i .. n - 1],
          sink\<lparr> sink_chunks := sink_chunks sink
                  @ map (\<lambda>j. case getChunk store u j of None \<Rightarrow> [] | Some c \<Rightarrow> pc_data c) [i .. n - 1] \<rparr>)"
proof (induction store u n i sink acc rule: finalizeLoop.induct)
  case (1 store u n i sink acc)
  show ?case
  proof (cases "i < n")
    case False
    then show ?thesis by simp
  next
    case True
    then have hd: "[i .. n - 1] = i # [i + 1 .. n - 1]" by (simp add: upto_head)
    with "1.prems" obtain c where c: "getChunk store u i = Some c" by auto
    from "1.prems" hd have rest: "\<forall>j \<in> set [i + 1 .. n - 1]. getChunk store u j \<noteq> None"
      by simp
    show ?thesis
      using "1.IH" [OF True c rest] True c
      by (subst finalizeLoop.simps) (simp add: hd sinkWrite_def)
  qed
qed

lemma finalizeLoop_missing:
  "i \<le> k \<Longrightarrow> k < n \<Longrightarrow> getChunk store u k = None \<Longrightarrow>
   (\<forall>j \<in> set [i .. k - 1]. getChunk store u j \<noteq> None) \<Longrightarrow>
   \<exists>sink'. finalizeLoop store u n i sink acc = Inl (k, sink')"
proof (induction store u n i sink acc rule: finalizeLoop.induct)
  case (1 store u n i sink acc)
  show ?case
  proof (cases "i = k")
    case True
    with "1.prems" show ?thesis by simp
  next
    case False
    with "1.prems" have lt: "i < k" by simp
    then have hd: "[i .. k - 1] = i # [i + 1 .. k - 1]" by (simp add: upto_head)
    with "1.prems" obtain c where c: "getChunk store u i = Some c" by auto
    from "1.prems" hd have rest: "\<forall>j \<in> set [i + 1 .. k - 1]. getChunk store u j \<noteq> None"
      by simp
    have in': "i < n" using lt "1.prems" by simp
    have "i + 1 \<le> k" using lt by simp
    from "1.IH" [OF in' c this "1.prems"(2) "1.prems"(3) rest]
    show ?thesis using in' c by (subst finalizeLoop.simps) simp
  qed
qed

text \<open>
  C2 (amended). When \<open>i\<close> is the smallest index below \<open>totalChunks\<close> without a
  stored chunk, the finalizer returns \<open>missing_chunk i\<close> and aborts the sink. When
  all chunks are stored it derives the file checksum from the stored chunk checksums
  in index order; it returns \<open>checksum_mismatch\<close> with the derived checksum and
  aborts the sink exactly when the expected checksum is present, not the empty
  string, and different from the derived one; otherwise it returns the blob of the
  stored chunks, the derived checksum and the storage mode, and does not abort.
\<close>

theorem finalize_from_store:
  "(firstMissing store u (md_totalChunks md) i \<longrightarrow>
      fst (finalizeIncomingTransferFromStore opfs digest store u md expected)
        = FinalizeMissingChunk i
      \<and> sink_aborted (snd (finalizeIncomingTransferFromStore opfs digest store u md expected)))
   \<and> (allChunksStored store u (md_totalChunks md) \<longrightarrow>
        (truthyString expected
           \<and> expected \<noteq> Some (deriveFileChecksumFromChunkChecksums digest
                                  (storedChecksums store u (md_totalChunks md))) \<longrightarrow>
           fst (finalizeIncomingTransferFromStore opfs digest store u md expected)
             = FinalizeChecksumMismatch
                 (deriveFileChecksumFromChunkChecksums digest
                    (storedChecksums store u (md_totalChunks md)))
           \<and> sink_aborted (snd (finalizeIncomingTransferFromStore opfs digest store u md expected)))
        \<and> (\<not> (truthyString expected
               \<and> expected \<noteq> Some (deriveFileChecksumFromChunkChecksums digest
                                      (storedChecksums store u (md_totalChunks md)))) \<longrightarrow>
           fst (finalizeIncomingTransferFromStore opfs digest store u md expected)
             = FinalizeSuccess
                 \<lparr> blob_parts = storedParts store u (md_totalChunks md),
                   blob_type = (if opfs then None else Some (md_type md)) \<rparr>
                 (deriveFileChecksumFromChunkChecksums digest
                    (storedChecksums store u (md_totalChunks md)))
                 (if opfs then Opfs else Memory)
           \<and> \<not> sink_aborted (snd (finalizeIncomingTransferFromStore opfs digest store u md expected))))"
proof -
  define sink where "sink = (case createOpfsChunkSink opfs u of
                    Some s \<Rightarrow> s
                  | None \<Rightarrow> createInMemoryChunkSink (md_type md))"
  have sink_props: "sink_chunks sink = []" "\<not> sink_aborted sink"
    "sink_mode sink = (if opfs then Opfs else Memory)"
    "sink_mimeType sink = (if opfs then None else Some (md_type md))"
    by (simp_all add: sink_def createOpfsChunkSink_def createInMemoryChunkSink_def)
  have unf: "finalizeIncomingTransferFromStore opfs digest store u md expected =
     (case finalizeLoop store u (md_totalChunks md) 0 sink [] of
           Inl (i, sink1) \<Rightarrow> (FinalizeMissingChunk i, sinkAbort sink1)
         | Inr (chunkChecksums, sink1) \<Rightarrow>
             let fileChecksum = deriveFileChecksumFromChunkChecksums digest chunkChecksums
             in if truthyString expected \<and> Some fileChecksum \<noteq> expected
                then (FinalizeChecksumMismatch fileChecksum, sinkAbort sink1)
                else let (blob, sink2) = sinkClose sink1
                     in (FinalizeSuccess blob fileChecksum (sink_mode sink2), sink2))"
    unfolding finalizeIncomingTransferFromStore_def sink_def Let_def ..
  have miss: "fst (finalizeIncomingTransferFromStore opfs digest store u md expected)
        = FinalizeMissingChunk i
      \<and> sink_aborted (snd (finalizeIncomingTransferFromStore opfs digest store u md expected))"
    if "firstMissing store u (md_totalChunks md) i"
  proof -
    from that obtain sink' where
      "finalizeLoop store u (md_totalChunks md) 0 sink [] = Inl (i, sink')"
      using finalizeLoop_missing [of 0 i "md_totalChunks md" store u sink "[]"]
      by (auto simp: firstMissing_def)
    then show ?thesis
      by (simp add: unf sinkAbort_def)
  qed
  have full: "finalizeLoop store u (md_totalChunks md) 0 sink [] =
      Inr (storedChecksums store u (md_totalChunks md),
           sink\<lparr> sink_chunks := storedParts store u (md_totalChunks md) \<rparr>)"
    if "allChunksStored store u (md_totalChunks md)"
    using that finalizeLoop_all [of 0 "md_totalChunks md" store u sink "[]"] sink_props
    by (simp add: allChunksStored_def storedChecksums_def storedParts_def)
  show ?thesis
    using miss full sink_props
    by (auto simp: unf sinkAbort_def sinkClose_def Let_def)
qed

lemma fnv_empty: "fnv1a32Hex [] = ''811c9dc5''"
  by (simp add: fnv1a32Hex_def padStart_def toStringHex.simps [of "numeral n" for n] hexDigit_def)

text \<open>
  C2 as stated fails for the expected checksum \<open>""\<close>: it is provided and differs
  from the derived checksum, and the finalizer still returns success, because the
  test \<open>expectedChecksum && _\<close> reads the empty string as absent.
\<close>

theorem finalize_empty_expected_counterexample:
  "deriveFileChecksumFromChunkChecksums None (storedChecksums emptyStore ''u1'' 0) = ''811c9dc5''
   \<and> Some [] \<noteq> Some ''811c9dc5''
   \<and> fst (finalizeIncomingTransferFromStore False None emptyStore ''u1'' emptyFile (Some []))
       = FinalizeSuccess \<lparr> blob_parts = [], blob_type = Some ''application/octet-stream'' \<rparr>
           ''811c9dc5'' Memory"
  by (simp add: finalizeIncomingTransferFromStore_def emptyFile_def createOpfsChunkSink_def
      createInMemoryChunkSink_def deriveFileChecksumFromChunkChecksums_def hashText_def
      hashArrayBuffer_def encodeText_def fnv_empty truthyString_def sinkClose_def
      storedChecksums_def)

lemma upto_0_1: "[0 .. 1] = [0, 1 :: int]"
  by (simp add: upto.simps)

lemma storeOne_missing: "firstMissing storeOne ''u1'' 2 1"
  by (simp add: firstMissing_def storeOne_def getChunk_def isSupported_def)

lemma storeTwo_all: "allChunksStored storeTwo ''u1'' 2"
  by (simp add: allChunksStored_def storeTwo_def getChunk_def isSupported_def)

lemma storeTwo_checksums: "storedChecksums storeTwo ''u1'' 2 = [''aa'', ''bb'']"
  by (simp add: storedChecksums_def storeTwo_def getChunk_def isSupported_def chunkRecord_def
      upto_0_1)

lemma storeTwo_parts: "storedParts storeTwo ''u1'' 2 = [[1, 2], [3]]"
  by (simp add: storedParts_def storeTwo_def getChunk_def isSupported_def chunkRecord_def
      upto_0_1)

lemma storeTwo_file_checksum:
  "deriveFileChecksumFromChunkChecksums None [''aa'', ''bb''] = ''58853d27''"
  by (simp add: deriveFileChecksumFromChunkChecksums_def hashText_def hashArrayBuffer_def
      encodeText_def fnv1a32Hex_def padStart_def toStringHex.simps [of "numeral n" for n]
      hexDigit_def)

theorem finalize_from_store_witness:
  "firstMissing storeOne ''u1'' (md_totalChunks twoChunkFile) 1
   \<and> fst (finalizeIncomingTransferFromStore False None storeOne ''u1'' twoChunkFile None)
       = FinalizeMissingChunk 1
   \<and> sink_aborted (snd (finalizeIncomingTransferFromStore False None storeOne ''u1'' twoChunkFile None))
   \<and> allChunksStored storeTwo ''u1'' (md_totalChunks twoChunkFile)
   \<and> truthyString (Some ''00000000'')
   \<and> Some ''00000000'' \<noteq> Some (deriveFileChecksumFromChunkChecksums None
                                      (storedChecksums storeTwo ''u1'' (md_totalChunks twoChunkFile)))
   \<and> fst (finalizeIncomingTransferFromStore False None storeTwo ''u1'' twoChunkFile
            (Some ''00000000''))
       = FinalizeChecksumMismatch ''58853d27''
   \<and> sink_aborted (snd (finalizeIncomingTransferFromStore False None storeTwo ''u1''
                          twoChunkFile (Some ''00000000'')))
   \<and> \<not> truthyString None
   \<and> fst (finalizeIncomingTransferFromStore False None storeTwo ''u1'' twoChunkFile None)
       = FinalizeSuccess
           \<lparr> blob_parts = [[1, 2], [3]], blob_type = Some ''application/octet-stream'' \<rparr>
           ''58853d27'' Memory
   \<and> \<not> sink_aborted (snd (finalizeIncomingTransferFromStore False None storeTwo ''u1''
                            twoChunkFile None))"
proof -
  have n: "md_totalChunks twoChunkFile = 2" and ty: "md_type twoChunkFile = ''application/octet-stream''"
    by (simp_all add: twoChunkFile_def)
  show ?thesis
    using finalize_from_store [of storeOne "''u1''" twoChunkFile 1 False None None]
      finalize_from_store [of storeTwo "''u1''" twoChunkFile 0 False None "Some ''00000000''"]
      finalize_from_store [of storeTwo "''u1''" twoChunkFile 0 False None None]
      storeOne_missing storeTwo_all
    by (simp add: n ty storeTwo_checksums storeTwo_parts storeTwo_file_checksum truthyString_def)
qed

section \<open>The receiving side\<close>

lemma normalize_nonneg: "0 \<le> n \<Longrightarrow> 0 \<le> normalizeChunkIndex v n"
  by (cases v) auto

lemma upsert_chunks:
  "ts_chunks (c_transferStore (upsertPersistedSession now this d md st n b fp fc))
     = ts_chunks (c_transferStore this)
   \<and> ts_supported (c_transferStore (upsertPersistedSession now this d md st n b fp fc))
     = ts_supported (c_transferStore this)"
  by (simp add: upsertPersistedSession_def putSession_def Let_def isSupported_def)

text \<open>
  C3. For every transfer state with a chunk count that is not negative, every
  \<open>fromChunk\<close> and every store within the key range, the receive-side
  \<open>requestRetransmit\<close> sets \<open>receivedChunks\<close> and \<open>expectedChunkIndex\<close> to
  \<open>normalizeChunkIndex fromChunk totalChunks\<close>, sets \<open>bytesReceived\<close> to
  \<open>bytesForChunkIndex\<close> of that start chunk, cuts \<open>chunkChecksums\<close> to that length,
  and leaves no persisted chunk of the upload at an index from the start chunk on;
  the chunks below the start chunk stay as they were. This holds whether the call
  returns or rejects; it rejects exactly when the start chunk is above
  \<open>MAX_SAFE_INTEGER\<close> with a store, or above the largest array length without one.
\<close>

theorem requestRetransmit_resets:
  assumes total: "0 \<le> md_totalChunks (it_metadata transfer)"
    and range: "noChunkAbove (c_transferStore this) (it_uploadId transfer)"
  shows "(case requestRetransmit now this transfer fromChunk reason of
           (err, transfer', this') \<Rightarrow>
             let startChunk = normalizeChunkIndex fromChunk (md_totalChunks (it_metadata transfer))
             in it_receivedChunks transfer' = startChunk
                \<and> it_expectedChunkIndex transfer' = startChunk
                \<and> it_bytesReceived transfer' =
                     bytesForChunkIndex startChunk (md_chunkSize (it_metadata transfer))
                       (md_size (it_metadata transfer))
                \<and> it_chunkChecksums transfer' = take (nat startChunk) (it_chunkChecksums transfer)
                \<and> (\<forall>i. startChunk \<le> i \<longrightarrow>
                       getChunk (c_transferStore this') (it_uploadId transfer) i = None)
                \<and> (\<forall>i. i < startChunk \<longrightarrow>
                       getChunk (c_transferStore this') (it_uploadId transfer) i
                         = getChunk (c_transferStore this) (it_uploadId transfer) i)
                \<and> err = (if isSupported (c_transferStore this)
                          then (if MAX_SAFE_INTEGER < startChunk then Some DataError else None)
                          else (if MAX_ARRAY_LENGTH < startChunk then Some RangeError
                                else None)))"
proof -
  define startChunk where
    "startChunk = normalizeChunkIndex fromChunk (md_totalChunks (it_metadata transfer))"
  have s0: "0 \<le> startChunk"
    unfolding startChunk_def using total by (rule normalize_nonneg)
  show ?thesis
  proof (cases "isSupported (c_transferStore this)")
    case True
    show ?thesis
    proof (cases "MAX_SAFE_INTEGER < startChunk")
      case above: True
      then show ?thesis
        using True s0 range
        by (auto simp: requestRetransmit_def Let_def startChunk_def [symmetric] sliceTo_def
            getChunk_def isSupported_def deleteChunksFrom_def noChunkAbove_def)
    next
      case below: False
      then show ?thesis
        using True s0 range
        by (auto simp: requestRetransmit_def Let_def startChunk_def [symmetric] sliceTo_def
            getChunk_def isSupported_def upsert_chunks deleteChunksFrom_def noChunkAbove_def
            not_le)
    qed
  next
    case False
    then show ?thesis
      using s0
      by (auto simp: requestRetransmit_def Let_def startChunk_def [symmetric] sliceTo_def
          getChunk_def isSupported_def upsert_chunks setLength_def)
  qed
qed

text \<open>
  C9. When the store holds a session under the key of the direction and upload id,
  \<open>upsertPersistedSession\<close> writes a session under that key that keeps the
  \<open>createdAt\<close> of the existing one, keeps its \<open>fingerprint\<close> and \<open>fileChecksum\<close>
  where the option is not supplied (and takes the option where it is), and carries
  the new status, \<open>nextChunkIndex\<close>, \<open>bytesTransferred\<close> and the current time as
  \<open>updatedAt\<close>.
\<close>

theorem upsertPersistedSession_preserves:
  assumes "getSession (c_transferStore this)
             (createTransferSessionKey direction (getUploadId metadata)) = Some existing"
  shows "(case getSession
                 (c_transferStore
                    (upsertPersistedSession now this direction metadata status nextChunkIndex
                       bytesTransferred optFingerprint optFileChecksum))
                 (createTransferSessionKey direction (getUploadId metadata)) of
            None \<Rightarrow> False
          | Some session \<Rightarrow>
              ps_createdAt session = ps_createdAt existing
              \<and> (optFingerprint = None \<longrightarrow> ps_fingerprint session = ps_fingerprint existing)
              \<and> (optFileChecksum = None \<longrightarrow> ps_fileChecksum session = ps_fileChecksum existing)
              \<and> (\<forall>f. optFingerprint = Some f \<longrightarrow> ps_fingerprint session = Some f)
              \<and> (\<forall>c. optFileChecksum = Some c \<longrightarrow> ps_fileChecksum session = Some c)
              \<and> ps_status session = status
              \<and> ps_nextChunkIndex session = nextChunkIndex
              \<and> ps_bytesTransferred session = bytesTransferred
              \<and> ps_updatedAt session = now)"
proof -
  from assms have sup: "isSupported (c_transferStore this)"
    by (auto simp: getSession_def split: if_splits)
  show ?thesis
    using assms sup
    by (simp add: upsertPersistedSession_def Let_def putSession_def getSession_def
        isSupported_def buildPersistedSession_def coalesce_def)
qed

lemma invalidFileId_iff:
  "invalidFileId m \<longleftrightarrow> \<not> (\<exists>s. s \<noteq> [] \<and> om_id m = JStr s)"
  by (cases "om_id m") (auto simp: invalidFileId_def)

text \<open>
  C4 (amended). An offer whose \<open>id\<close> is missing or not a non-empty string makes
  the handler call \<open>sendTransferError\<close> with code \<open>INVALID_FILE_ID\<close>; an offer with a
  valid id whose \<open>chunkSize\<close> is not a number, at most 0 or below 16 KiB, or whose
  \<open>size\<close> is not a number or negative, makes it call \<open>sendTransferError\<close> with code
  \<open>INVALID_METADATA\<close>. The error goes out when the data channel is open, and nothing
  is sent when it is not. In both cases nothing else changes: no transfer state is
  created and no \<open>receiver-ready\<close> is sent.
\<close>

theorem handleIncomingFileOffer_rejects:
  "(invalidFileId metadata \<longrightarrow>
      handleIncomingFileOffer now this metadata =
        Some (if c_dataChannelReady this
              then this\<lparr> c_sent := c_sent this
                     @ [TransferError [] ''INVALID_FILE_ID'' ''Invalid fileId''] \<rparr>
              else this))
   \<and> (om_id metadata = JStr fileId \<and> fileId \<noteq> [] \<and> invalidMetadata metadata \<longrightarrow>
      handleIncomingFileOffer now this metadata =
        Some (if c_dataChannelReady this
              then this\<lparr> c_sent := c_sent this
                     @ [TransferError fileId ''INVALID_METADATA'' ''Invalid metadata''] \<rparr>
              else this))
   \<and> (invalidFileId metadata \<or> invalidMetadata metadata \<longrightarrow>
        (case handleIncomingFileOffer now this metadata of
           None \<Rightarrow> False
         | Some this' \<Rightarrow>
             c_incomingTransfers this' = c_incomingTransfers this
             \<and> filter isReceiverReady (c_sent this') = filter isReceiverReady (c_sent this)))"
proof -
  have a: "handleIncomingFileOffer now this metadata =
        Some (if c_dataChannelReady this
              then this\<lparr> c_sent := c_sent this
                     @ [TransferError [] ''INVALID_FILE_ID'' ''Invalid fileId''] \<rparr>
              else this)" if "invalidFileId metadata"
    using that
    by (simp add: handleIncomingFileOffer_def sendTransferError_def isDataChannelReady_def)
  have b: "handleIncomingFileOffer now this metadata =
        Some (if c_dataChannelReady this
              then this\<lparr> c_sent := c_sent this
                     @ [TransferError fid ''INVALID_METADATA'' ''Invalid metadata''] \<rparr>
              else this)"
    if "om_id metadata = JStr fid" "fid \<noteq> []" "invalidMetadata metadata" for fid
    using that
    by (simp add: handleIncomingFileOffer_def sendTransferError_def isDataChannelReady_def
        invalidFileId_def)
  have c: "(case handleIncomingFileOffer now this metadata of
           None \<Rightarrow> False
         | Some this' \<Rightarrow>
             c_incomingTransfers this' = c_incomingTransfers this
             \<and> filter isReceiverReady (c_sent this') = filter isReceiverReady (c_sent this))"
    if "invalidFileId metadata \<or> invalidMetadata metadata"
  proof (cases "invalidFileId metadata")
    case True
    then show ?thesis by (simp add: a)
  next
    case False
    then obtain fid where "om_id metadata = JStr fid" "fid \<noteq> []"
      by (auto simp: invalidFileId_iff)
    moreover from False that have "invalidMetadata metadata" by simp
    ultimately show ?thesis by (simp add: b)
  qed
  show ?thesis using a b c by blast
qed

lemma receiving_store:
  "ts_supported (c_transferStore receivingConnection)"
  "ts_chunks (c_transferStore receivingConnection) = ts_chunks storeTwo"
  "ts_sessions (c_transferStore receivingConnection) = [''incoming:u1'' \<mapsto> existingSession]"
  by (simp_all add: receivingConnection_def storeTwo_def)

lemma receiving_noChunkAbove: "noChunkAbove (c_transferStore receivingConnection) ''u1''"
  by (simp add: noChunkAbove_def receiving_store storeTwo_def MAX_SAFE_INTEGER_def)

theorem requestRetransmit_resets_witness:
  "0 \<le> md_totalChunks (it_metadata twoChunkTransfer)
   \<and> noChunkAbove (c_transferStore receivingConnection) (it_uploadId twoChunkTransfer)
   \<and> (case requestRetransmit 7 receivingConnection twoChunkTransfer (Fin 1) ''missing_chunks'' of
         (err, transfer', this') \<Rightarrow>
           err = None
           \<and> it_receivedChunks transfer' = 1
           \<and> it_expectedChunkIndex transfer' = 1
           \<and> it_bytesReceived transfer' = 2
           \<and> it_chunkChecksums transfer' = [Some ''aa'']
           \<and> getChunk (c_transferStore this') ''u1'' 1 = None
           \<and> getChunk (c_transferStore this') ''u1'' 0 \<noteq> None)
   \<and> 0 \<le> md_totalChunks (it_metadata hugeTransfer)
   \<and> noChunkAbove (c_transferStore receivingConnection) (it_uploadId hugeTransfer)
   \<and> (case requestRetransmit 7 receivingConnection hugeTransfer (Fin 9007199254740992)
              ''missing_chunks'' of
         (err, transfer', this') \<Rightarrow>
           err = Some DataError
           \<and> it_receivedChunks transfer' = 9007199254740992
           \<and> it_expectedChunkIndex transfer' = 9007199254740992
           \<and> it_chunkChecksums transfer' = [Some ''aa'', Some ''bb'']
           \<and> getChunk (c_transferStore this') ''u1'' 9007199254740992 = None)"
proof -
  have t: "md_totalChunks (it_metadata twoChunkTransfer) = 2"
    "it_uploadId twoChunkTransfer = ''u1''"
    "md_chunkSize (it_metadata twoChunkTransfer) = 2"
    "md_size (it_metadata twoChunkTransfer) = 3"
    "it_chunkChecksums twoChunkTransfer = [Some ''aa'', Some ''bb'']"
    by (simp_all add: twoChunkTransfer_def twoChunkFile_def)
  have u: "md_totalChunks (it_metadata hugeTransfer) = 9007199254740992"
    "it_uploadId hugeTransfer = ''u1''"
    "it_chunkChecksums hugeTransfer = [Some ''aa'', Some ''bb'']"
    by (simp_all add: hugeTransfer_def twoChunkTransfer_def)
  have sup: "isSupported (c_transferStore receivingConnection)"
    by (simp add: isSupported_def receiving_store)
  have h1: "0 \<le> md_totalChunks (it_metadata twoChunkTransfer)" by (simp add: t)
  have h2: "noChunkAbove (c_transferStore receivingConnection) (it_uploadId twoChunkTransfer)"
    by (simp add: t receiving_noChunkAbove)
  have h3: "0 \<le> md_totalChunks (it_metadata hugeTransfer)" by (simp add: u)
  have h4: "noChunkAbove (c_transferStore receivingConnection) (it_uploadId hugeTransfer)"
    by (simp add: u receiving_noChunkAbove)
  have g0: "getChunk (c_transferStore receivingConnection) ''u1'' 0 \<noteq> None"
    by (simp add: getChunk_def isSupported_def receiving_store storeTwo_def)
  have small: "(case requestRetransmit 7 receivingConnection twoChunkTransfer (Fin 1)
                      ''missing_chunks'' of
         (err, transfer', this') \<Rightarrow>
           err = None
           \<and> it_receivedChunks transfer' = 1
           \<and> it_expectedChunkIndex transfer' = 1
           \<and> it_bytesReceived transfer' = 2
           \<and> it_chunkChecksums transfer' = [Some ''aa'']
           \<and> getChunk (c_transferStore this') ''u1'' 1 = None
           \<and> getChunk (c_transferStore this') ''u1'' 0 \<noteq> None)"
    using requestRetransmit_resets [OF h1 h2, where now = 7 and fromChunk = "Fin 1"
        and reason = "''missing_chunks''"] g0 sup
    by (auto simp: t bytesForChunkIndex_def Let_def MAX_SAFE_INTEGER_def split: prod.splits)
  have huge: "(case requestRetransmit 7 receivingConnection hugeTransfer (Fin 9007199254740992)
              ''missing_chunks'' of
         (err, transfer', this') \<Rightarrow>
           err = Some DataError
           \<and> it_receivedChunks transfer' = 9007199254740992
           \<and> it_expectedChunkIndex transfer' = 9007199254740992
           \<and> it_chunkChecksums transfer' = [Some ''aa'', Some ''bb'']
           \<and> getChunk (c_transferStore this') ''u1'' 9007199254740992 = None)"
    using requestRetransmit_resets [OF h3 h4, where now = 7
        and fromChunk = "Fin 9007199254740992" and reason = "''missing_chunks''"] sup
    by (auto simp: u Let_def MAX_SAFE_INTEGER_def split: prod.splits)
  show ?thesis using h1 h2 h3 h4 small huge by blast
qed

lemma receiving_session:
  "getSession (c_transferStore receivingConnection)
     (createTransferSessionKey Incoming (getUploadId twoChunkFile)) = Some existingSession"
  by (simp add: getSession_def isSupported_def receiving_store createTransferSessionKey_def
      directionName_def getUploadId_def twoChunkFile_def)

theorem upsertPersistedSession_preserves_witness:
  "getSession (c_transferStore receivingConnection)
     (createTransferSessionKey Incoming (getUploadId twoChunkFile)) = Some existingSession
   \<and> (case getSession
             (c_transferStore
                (upsertPersistedSession 200 receivingConnection Incoming twoChunkFile Active 1 2
                   None (Some ''58853d27'')))
             (createTransferSessionKey Incoming (getUploadId twoChunkFile)) of
         None \<Rightarrow> False
       | Some session \<Rightarrow>
           ps_createdAt session = 100
           \<and> ps_fingerprint session = Some ''fp''
           \<and> ps_fileChecksum session = Some ''58853d27''
           \<and> ps_status session = Active
           \<and> ps_nextChunkIndex session = 1
           \<and> ps_bytesTransferred session = 2
           \<and> ps_updatedAt session = 200)"
  using upsertPersistedSession_preserves [OF receiving_session, where now = 200
      and status = Active and nextChunkIndex = 1 and bytesTransferred = 2
      and optFingerprint = None and optFileChecksum = "Some ''58853d27''"] receiving_session
  by (auto simp: existingSession_def split: option.splits)

theorem handleIncomingFileOffer_rejects_witness:
  "invalidFileId badIdOffer
   \<and> handleIncomingFileOffer 0 receivingConnection badIdOffer =
       Some (receivingConnection\<lparr> c_sent :=
               [TransferError [] ''INVALID_FILE_ID'' ''Invalid fileId''] \<rparr>)
   \<and> om_id smallChunkOffer = JStr ''f2'' \<and> ''f2'' \<noteq> [] \<and> invalidMetadata smallChunkOffer
   \<and> handleIncomingFileOffer 0 receivingConnection smallChunkOffer =
       Some (receivingConnection\<lparr> c_sent :=
               [TransferError ''f2'' ''INVALID_METADATA'' ''Invalid metadata''] \<rparr>)
   \<and> (case handleIncomingFileOffer 0 receivingConnection smallChunkOffer of
         None \<Rightarrow> False
       | Some this' \<Rightarrow>
           c_incomingTransfers this' = c_incomingTransfers receivingConnection
           \<and> filter isReceiverReady (c_sent this') = [])"
proof -
  have a: "invalidFileId badIdOffer" by (simp add: invalidFileId_def badIdOffer_def)
  have b: "om_id smallChunkOffer = JStr ''f2''" "invalidMetadata smallChunkOffer"
    by (simp_all add: invalidMetadata_def smallChunkOffer_def ADAPTIVE_MIN_CHUNK_SIZE_def)
  have c: "c_dataChannelReady receivingConnection" "c_sent receivingConnection = []"
    by (simp_all add: receivingConnection_def)
  show ?thesis
    using handleIncomingFileOffer_rejects [where metadata = badIdOffer and now = 0
        and this = receivingConnection and fileId = "''f2''"]
      handleIncomingFileOffer_rejects [where metadata = smallChunkOffer and now = 0
        and this = receivingConnection and fileId = "''f2''"] a b c
    by simp
qed

text \<open>
  C4 as stated fails in two ways. On a connection whose data channel is not open
  the handler sends no \<open>transfer-error\<close> at all; and an offer with an empty id and a
  chunk size of 0 is answered with \<open>INVALID_FILE_ID\<close> only, since the id check
  returns before the metadata check.
\<close>

theorem handleIncomingFileOffer_counterexample:
  "invalidFileId badIdOffer \<and> invalidMetadata badIdOffer
   \<and> handleIncomingFileOffer 0 closedConnection badIdOffer = Some closedConnection
   \<and> handleIncomingFileOffer 0 closedConnection smallChunkOffer = Some closedConnection
   \<and> c_sent closedConnection = []
   \<and> handleIncomingFileOffer 0 receivingConnection badIdOffer =
       Some (receivingConnection\<lparr> c_sent :=
               [TransferError [] ''INVALID_FILE_ID'' ''Invalid fileId''] \<rparr>)"
  by (simp add: handleIncomingFileOffer_def invalidFileId_def invalidMetadata_def
      badIdOffer_def smallChunkOffer_def sendTransferError_def isDataChannelReady_def
      closedConnection_def receivingConnection_def ADAPTIVE_MIN_CHUNK_SIZE_def)

text \<open>
  An offer that passes both checks: the handler records the transfer, marks it
  ready and answers with \<open>receiver-ready\<close>.
\<close>

lemma goodOffer_chunks: "calculateTotalChunks (Fin 40000) (Fin 16384) = Fin 3"
proof -
  have r: "roundToDouble (625 / 256) = Fin (625 / 256)"
  proof (rule roundToDouble_exact [where k = 1 and n = "625 * 2 ^ 43"])
    show "(2::real) ^ 1 \<le> 625 / 256" by simp
    show "(625::real) / 256 < 2 ^ (1 + 1)" by simp
    show "(1::nat) \<le> 52" by simp
    show "(625::real) / 256 * 2 ^ (52 - 1) = of_int (625 * 2 ^ 43)" by simp
  qed
  have c: "\<lceil>(625::real) / 256\<rceil> = 3" by (simp add: ceiling_eq_iff)
  show ?thesis by (simp add: calculateTotalChunks_def r c)
qed

lemma goodOffer_accepted:
  "(case handleIncomingFileOffer 0 receivingConnection goodOffer of
      None \<Rightarrow> False
    | Some this' \<Rightarrow>
        c_sent this' = [ReceiverReady ''f2'' ''f2'' 0]
        \<and> map_option it_ready (c_incomingTransfers this' ''f2'') = Some True
        \<and> map_option (md_totalChunks \<circ> it_metadata) (c_incomingTransfers this' ''f2'') = Some 3
        \<and> c_currentReceivingFileId this' = Some ''f2'')"
  by (simp add: handleIncomingFileOffer_def invalidFileId_def invalidMetadata_def
      goodOffer_def acceptFileOffer_def Let_def ADAPTIVE_MIN_CHUNK_SIZE_def
      goodOffer_chunks receiving_store isSupported_def getSession_def
      createTransferSessionKey_def directionName_def upsertPersistedSession_def
      sendReceiverReady_def isDataChannelReady_def putSession_def deleteUpload_def
      buildPersistedSession_def getUploadId_def coalesce_def receivingConnection_def)

end
